theory Spec2Isabelle
  imports Main
begin

section \<open>Strings\<close>

text \<open>
  The script \<^verbatim>\<open>src/plugins/tenex-tasks/tenex_task.ts\<close> works on JavaScript strings.
  They are modelled as \<^typ>\<open>string\<close>, a list of 8-bit characters; the operations below
  are the JavaScript string methods the script calls, restricted to that character range.
\<close>

text \<open>\<^verbatim>\<open>String.prototype.trim\<close> removes white space and line terminators from both
  ends: tab, line feed, vertical tab, form feed, carriage return, space and the
  no-break space are the ones among the 8-bit characters.\<close>

definition isWhiteSpace :: "char \<Rightarrow> bool" where
  "isWhiteSpace c \<longleftrightarrow>
     c \<in> set [CHR 0x09, CHR 0x0A, CHR 0x0B, CHR 0x0C, CHR 0x0D, CHR 0x20, CHR 0xA0]"

definition trim :: "string \<Rightarrow> string" where
  "trim s = rev (dropWhile isWhiteSpace (rev (dropWhile isWhiteSpace s)))"

text \<open>\<^verbatim>\<open>String.prototype.toLowerCase\<close>. Among the 8-bit characters the capital letters
  are A to Z (0x41 to 0x5A) and the Latin-1 capitals 0xC0 to 0xDE without the
  multiplication sign 0xD7; each is mapped to the character 0x20 above it, and every
  other character is kept.\<close>

definition upperCaseLetters :: string where
  "upperCaseLetters = ''ABCDEFGHIJKLMNOPQRSTUVWXYZ'' @
     [CHR 0xC0, CHR 0xC1, CHR 0xC2, CHR 0xC3, CHR 0xC4, CHR 0xC5, CHR 0xC6, CHR 0xC7,
      CHR 0xC8, CHR 0xC9, CHR 0xCA, CHR 0xCB, CHR 0xCC, CHR 0xCD, CHR 0xCE, CHR 0xCF,
      CHR 0xD0, CHR 0xD1, CHR 0xD2, CHR 0xD3, CHR 0xD4, CHR 0xD5, CHR 0xD6,
      CHR 0xD8, CHR 0xD9, CHR 0xDA, CHR 0xDB, CHR 0xDC, CHR 0xDD, CHR 0xDE]"

definition lowerCaseLetters :: string where
  "lowerCaseLetters = ''abcdefghijklmnopqrstuvwxyz'' @
     [CHR 0xE0, CHR 0xE1, CHR 0xE2, CHR 0xE3, CHR 0xE4, CHR 0xE5, CHR 0xE6, CHR 0xE7,
      CHR 0xE8, CHR 0xE9, CHR 0xEA, CHR 0xEB, CHR 0xEC, CHR 0xED, CHR 0xEE, CHR 0xEF,
      CHR 0xF0, CHR 0xF1, CHR 0xF2, CHR 0xF3, CHR 0xF4, CHR 0xF5, CHR 0xF6,
      CHR 0xF8, CHR 0xF9, CHR 0xFA, CHR 0xFB, CHR 0xFC, CHR 0xFD, CHR 0xFE]"

definition toLowerChar :: "char \<Rightarrow> char" where
  "toLowerChar c =
     (case map_of (zip upperCaseLetters lowerCaseLetters) c of
        Some l \<Rightarrow> l
      | None \<Rightarrow> c)"

definition toLowerCase :: "string \<Rightarrow> string" where
  "toLowerCase s = map toLowerChar s"

text \<open>\<^verbatim>\<open>s.startsWith(p)\<close>.\<close>

definition startsWith :: "string \<Rightarrow> string \<Rightarrow> bool" where
  "startsWith s p \<longleftrightarrow> take (length p) s = p"

text \<open>\<^verbatim>\<open>s.split(c)\<close> for a one-character separator: the pieces between the
  occurrences of \<open>c\<close>; the result always has at least one piece.\<close>

fun split :: "char \<Rightarrow> string \<Rightarrow> string list" where
  "split c [] = [[]]"
| "split c (x # xs) =
     (if x = c then [] # split c xs
      else (case split c xs of
              [] \<Rightarrow> [[x]]
            | piece # pieces \<Rightarrow> (x # piece) # pieces))"

text \<open>\<^verbatim>\<open>xs.join(sep)\<close>.\<close>

fun join :: "string \<Rightarrow> string list \<Rightarrow> string" where
  "join sep [] = []"
| "join sep [x] = x"
| "join sep (x # y # ys) = x @ sep @ join sep (y # ys)"

text \<open>Decimal rendering of a number inside a template literal.\<close>

fun show_nat :: "nat \<Rightarrow> string" where
  "show_nat n =
     (if n < 10 then [''0123456789'' ! n]
      else show_nat (n div 10) @ [''0123456789'' ! (n mod 10)])"

declare show_nat.simps [simp del]

definition show_int :: "int \<Rightarrow> string" where
  "show_int i = (if i < 0 then ''-'' @ show_nat (nat (- i)) else show_nat (nat i))"

section \<open>Values, errors and the environment\<close>

text \<open>The value \<^verbatim>\<open>JSON.parse\<close> returns. Numbers are kept as integers: the script
  only tests them for truthiness, that is, for being non-zero.\<close>

datatype json =
    JNull
  | JBool bool
  | JNum int
  | JStr string
  | JArr "json list"
  | JObj "(string \<times> json) list"

text \<open>Reading a property of a parsed value; \<open>None\<close> is \<^verbatim>\<open>undefined\<close>. Only an object
  has the properties \<^verbatim>\<open>nsec\<close> and \<^verbatim>\<open>eventId\<close>.\<close>

fun property :: "json \<Rightarrow> string \<Rightarrow> json option" where
  "property (JObj kvs) k = map_of kvs k"
| "property _ k = None"

text \<open>JavaScript truthiness, as tested by \<^verbatim>\<open>!nsec\<close>.\<close>

fun truthy :: "json option \<Rightarrow> bool" where
  "truthy None = False"
| "truthy (Some JNull) = False"
| "truthy (Some (JBool b)) = b"
| "truthy (Some (JNum n)) = (n \<noteq> 0)"
| "truthy (Some (JStr s)) = (s \<noteq> [])"
| "truthy (Some (JArr _)) = True"
| "truthy (Some (JObj _)) = True"

text \<open>A thrown exception: \<^verbatim>\<open>new Error(message)\<close>, or the \<^verbatim>\<open>TypeError\<close> the engine
  raises when \<^verbatim>\<open>null\<close> is destructured.\<close>

datatype error = Error string | TypeError string

fun message :: "error \<Rightarrow> string" where
  "message (Error m) = m"
| "message (TypeError m) = m"

datatype stream = Log | Err | Warn

text \<open>What a run does to the outside world, in order: console output, file writes and
  deletions, and the two kinds of external process. \<open>Generation model prompt\<close> is the
  spawn of \<^verbatim>\<open>sh -c "cat <temporary prompt file> | ollama run <model>"\<close>, the file holding
  \<open>prompt\<close>; \<open>Publication nsec eventId taskTitle taskContent relays\<close> is the spawn of
  \<^verbatim>\<open>nak event --sec nsec -k 1934 -t a=eventId -t title=taskTitle -c taskContent relays\<close>.\<close>

datatype event =
    Console stream string
  | WriteFile string string
  | Unlink string
  | Generation string string
  | Publication json json string string "string list"

record dirent =
  name :: string
  isDirectory :: bool

text \<open>
  Everything the script reads from outside: the environment variables (with their
  defaults already applied), the library functions on paths, the clock, the file system
  and the two external commands. A failing library call is \<open>Inl\<close> of the error's message.
  Writing a file and starting a process are taken to succeed.
\<close>

record world =
  TENEX_PROJECTS_DIR :: string
  FIND_PROJECT_MODEL :: string
  TASK_MODEL :: string
  RELAYS :: string
  cwd :: string
  path_join :: "string list \<Rightarrow> string"
  path_resolve :: "string \<Rightarrow> string"
  clock :: "nat \<Rightarrow> nat"
  file_text :: "string \<Rightarrow> string option"
  readdir :: "string \<Rightarrow> string + dirent list"
  readFile :: "string \<Rightarrow> string + string"
  JSON_parse :: "string \<Rightarrow> string + json"
  ollama :: "string \<Rightarrow> string \<Rightarrow> string \<times> string"
  unlink_fails :: "string \<Rightarrow> bool"
  nak :: "json \<Rightarrow> json \<Rightarrow> string \<Rightarrow> string \<Rightarrow> string list \<Rightarrow> int"

text \<open>An asynchronous function of the script: the events it causes, then the exception
  it throws (\<open>Inl\<close>) or the value it returns (\<open>Inr\<close>).\<close>

type_synonym 'a io = "event list \<times> (error + 'a)"

section \<open>The script\<close>

text \<open>One definition per function of the script, in the order of the file. The check of
  the workspace root that the script starts in the background when it is loaded, and the
  test of the command line at its end, are outside these functions and are not part of
  the model.\<close>

subsection \<open>queryOllama\<close>

text \<open>\<open>now\<close> is the value of \<^verbatim>\<open>Date.now()\<close> when the function is entered. The prompt is
  written to a temporary file, the command is run, a non-blank standard error is
  logged, and the \<^verbatim>\<open>finally\<close> block deletes the file, warning when that fails. The
  result is the trimmed standard output.\<close>

definition queryOllama :: "world \<Rightarrow> nat \<Rightarrow> string \<Rightarrow> string \<Rightarrow> event list \<times> string" where
  "queryOllama w now model prompt =
     (let tempPromptPath = path_join w [cwd w, ''temp_prompt_'' @ show_nat now @ ''.txt''];
          response = fst (ollama w model prompt);
          error = snd (ollama w model prompt)
      in ([Console Log (''Querying Ollama with model: '' @ model),
           WriteFile tempPromptPath prompt,
           Generation model prompt]
          @ (if error \<noteq> [] \<and> trim error \<noteq> []
             then [Console Err (''Ollama error: '' @ error)] else [])
          @ [Unlink tempPromptPath]
          @ (if unlink_fails w tempPromptPath
             then [Console Warn (''Warning: Could not delete temporary prompt file: '' @ tempPromptPath)]
             else []),
          trim response))"

subsection \<open>getProjectDirectories\<close>

definition getProjectDirectories :: "world \<Rightarrow> event list \<times> string list" where
  "getProjectDirectories w =
     (case readdir w (TENEX_PROJECTS_DIR w) of
        Inr entries \<Rightarrow>
          (let directories = map name (filter isDirectory entries)
           in ([Console Log (''Getting project directories from: '' @ TENEX_PROJECTS_DIR w),
                Console Log (''Found '' @ show_nat (length directories) @ '' project directories'')],
               directories))
      | Inl error_message \<Rightarrow>
          ([Console Log (''Getting project directories from: '' @ TENEX_PROJECTS_DIR w),
            Console Err (''Error reading project directories: '' @ error_message)],
           []))"

subsection \<open>findProjectName\<close>

definition findProjectPrompt :: "string \<Rightarrow> string list \<Rightarrow> string" where
  \<open>findProjectPrompt transcriptContent projectDirs =
     ''\<newline>'' @
     ''You are tasked with identifying the name of a project mentioned in the following transcript.\<newline>'' @
     ''The project name should match one of the directories in the list provided below.\<newline>'' @
     ''Note that the directory names may have a random string suffix that is not part of the actual project name.\<newline>'' @
     ''For example, the project "Shipyard" might be in a directory called "Shipyard-rux5kf".\<newline>'' @
     ''\<newline>'' @
     ''Available project directories:\<newline>'' @
     join ''\<newline>'' projectDirs @ ''\<newline>'' @
     ''\<newline>'' @
     ''Transcript:\<newline>'' @
     transcriptContent @ ''\<newline>'' @
     ''\<newline>'' @
     ''Based on the transcript, which project directory is being referred to?\<newline>'' @
     ''Respond with ONLY the exact directory name from the list above, nothing else.\<newline>''\<close>

text \<open>The test the script hands to \<^verbatim>\<open>projectDirs.find\<close>: one disjunction of four
  comparisons of a directory name with the response. \<^verbatim>\<open>dir.split('-')[0]\<close> is the first
  piece of the split, which always exists.\<close>

definition dirMatches :: "string \<Rightarrow> string \<Rightarrow> bool" where
  "dirMatches response dir \<longleftrightarrow>
     dir = response \<or>
     toLowerCase dir = toLowerCase response \<or>
     startsWith dir response \<or>
     startsWith response (hd (split CHR ''-'' dir))"

text \<open>\<^verbatim>\<open>projectDirs.find(...)\<close>: the first element, in array order, that passes the
  test; \<open>None\<close> is \<^verbatim>\<open>undefined\<close>.\<close>

definition matchedDir :: "string \<Rightarrow> string list \<Rightarrow> string option" where
  "matchedDir response projectDirs = find (dirMatches response) projectDirs"

text \<open>\<^verbatim>\<open>if (matchedDir)\<close> tests truthiness: \<^verbatim>\<open>undefined\<close> and the empty string both take
  the \<^verbatim>\<open>else\<close> branch, which logs the response and throws an error with a fixed
  message.\<close>

definition findProjectName :: "world \<Rightarrow> string \<Rightarrow> string list \<Rightarrow> string io" where
  \<open>findProjectName w transcriptContent projectDirs =
     (let prompt = findProjectPrompt transcriptContent projectDirs;
          queried = queryOllama w (clock w 0) (FIND_PROJECT_MODEL w) prompt;
          response = snd queried;
          found = matchedDir response projectDirs
      in if found \<noteq> None \<and> found \<noteq> Some []
         then ([Console Log ''Finding project name from transcript...''] @ fst queried @
               [Console Log (''Identified project directory: '' @ the found)],
               Inr (the found))
         else ([Console Log ''Finding project name from transcript...''] @ fst queried @
               [Console Err (''Could not match response "'' @ response @ ''" to any project directory'')],
               Inl (Error ''Could not identify project directory'')))\<close>

subsection \<open>Sequencing\<close>

text \<open>Statements in sequence: an exception thrown by one skips those after it, and the
  events accumulate in order.\<close>

definition io_bind :: "'a io \<Rightarrow> ('a \<Rightarrow> 'b io) \<Rightarrow> 'b io" where
  "io_bind m f =
     (case snd m of
        Inl e \<Rightarrow> (fst m, Inl e)
      | Inr x \<Rightarrow> (fst m @ fst (f x), snd (f x)))"

definition io_throw :: "error \<Rightarrow> 'a io" where
  "io_throw e = ([], Inl e)"

definition io_return :: "'a \<Rightarrow> 'a io" where
  "io_return x = ([], Inr x)"

definition io_emit :: "event list \<Rightarrow> unit io" where
  "io_emit es = (es, Inr ())"

text \<open>A call of a function that never throws.\<close>

definition io_lift :: "event list \<times> 'a \<Rightarrow> 'a io" where
  "io_lift m = (fst m, Inr (snd m))"

subsection \<open>readTenexConfig and readFileIfExists\<close>

text \<open>Reading and parsing are inside one \<^verbatim>\<open>try\<close>: either failure is logged and replaced
  by an error naming the project.\<close>

definition readTenexConfig :: "world \<Rightarrow> string \<Rightarrow> json io" where
  "readTenexConfig w projectDir =
     (let configPath = path_join w [TENEX_PROJECTS_DIR w, projectDir, ''.tenex.json''];
          failed = (\<lambda>error_message.
            ([Console Log (''Reading Tenex config from: '' @ configPath),
              Console Err (''Error reading Tenex config: '' @ error_message)],
             Inl (Error (''Could not read .tenex.json for project '' @ projectDir))))
      in case readFile w configPath of
           Inl error_message \<Rightarrow> failed error_message
         | Inr configContent \<Rightarrow>
             (case JSON_parse w configContent of
                Inl error_message \<Rightarrow> failed error_message
              | Inr config \<Rightarrow>
                  ([Console Log (''Reading Tenex config from: '' @ configPath)], Inr config)))"

definition readFileIfExists :: "world \<Rightarrow> string \<Rightarrow> event list \<times> string" where
  "readFileIfExists w filePath =
     (case readFile w filePath of
        Inr content \<Rightarrow> ([], content)
      | Inl error_message \<Rightarrow> ([Console Log (''File not found: '' @ filePath)], []))"

subsection \<open>createDetailedTask\<close>

text \<open>\<^verbatim>\<open>if (specContent)\<close> is true exactly for a non-empty string.\<close>

definition contextInfo :: "string \<Rightarrow> string \<Rightarrow> string list" where
  "contextInfo specContent architectureContent =
     (if specContent \<noteq> [] then [''<SPEC>\<newline>'' @ specContent @ ''</SPEC>''] else []) @
     (if architectureContent \<noteq> []
      then [''<ARCHITECTURE>\<newline>'' @ architectureContent @ ''</ARCHITECTURE>''] else [])"

definition contextSection :: "string \<Rightarrow> string \<Rightarrow> string" where
  "contextSection specContent architectureContent =
     (if length (contextInfo specContent architectureContent) > 0
      then ''\<newline>For context, here are the project's specification and architecture documents:\<newline>\<newline>''
           @ join ''\<newline>\<newline>'' (contextInfo specContent architectureContent)
      else [])"

definition taskPrompt :: "string \<Rightarrow> string \<Rightarrow> string \<Rightarrow> string" where
  "taskPrompt transcriptContent specContent architectureContent =
     ''\<newline>'' @
     ''You are tasked with creating a detailed task for an LLM to work on based on the following transcript.\<newline>'' @
     ''The task should include a clear title, a careful explanation, and high-level action items.\<newline>'' @
     ''\<newline>'' @
     contextSection specContent architectureContent @ ''\<newline>'' @
     ''\<newline>'' @
     ''-- END OF CONTEXT --\<newline>'' @
     ''\<newline>'' @
     ''What follows is the task requirement, this is the user's description of what needs to be speced:\<newline>'' @
     ''\<newline>'' @
     ''<TASK-DETAILS>\<newline>'' @
     transcriptContent @ ''\<newline>'' @
     ''</TASK-DETAILS>\<newline>'' @
     ''\<newline>'' @
     ''Create a detailed task with:\<newline>'' @
     ''1. A clear, concise title as the first line (this will be extracted as the task title) (no more than 15 words)\<newline>'' @
     ''2. A thorough explanation of what needs to be done\<newline>'' @
     ''3. Specific action items or steps to complete the task, do not include filenames, function names, or any other specific implementation details. Just a high-level action items of what is involved to accomplish this task.\<newline>'' @
     ''4. Any relevant technical considerations based on the context provided.\<newline>'' @
     ''\<newline>'' @
     ''Provide the title as the first line with nothing else, as we'll extract just that line as the task title.\<newline>''"

definition createDetailedTask :: "world \<Rightarrow> string \<Rightarrow> string \<Rightarrow> string \<Rightarrow> event list \<times> string" where
  "createDetailedTask w transcriptContent specContent architectureContent =
     (let prompt = taskPrompt transcriptContent specContent architectureContent;
          queried = queryOllama w (clock w 1) (TASK_MODEL w) prompt
      in ([Console Log ''Creating detailed task...''] @ fst queried, trim (snd queried)))"

subsection \<open>publishNostrEvent\<close>

definition publishNostrEvent ::
    "world \<Rightarrow> json \<Rightarrow> json \<Rightarrow> string \<Rightarrow> string \<Rightarrow> event list \<times> bool" where
  "publishNostrEvent w nsec eventId taskTitle taskContent =
     (let relaysArray = split CHR '' '' (RELAYS w);
          exitCode = nak w nsec eventId taskTitle taskContent relaysArray
      in if exitCode \<noteq> 0
         then ([Console Log ''Publishing Nostr event...'',
                Publication nsec eventId taskTitle taskContent relaysArray,
                Console Err (''Error publishing Nostr event, exit code: '' @ show_int exitCode)],
               False)
         else ([Console Log ''Publishing Nostr event...'',
                Publication nsec eventId taskTitle taskContent relaysArray,
                Console Log ''Successfully published Nostr event''],
               True))"

subsection \<open>processTenexTask\<close>

datatype outcome = Returned | Exited int

text \<open>Step 7 of the function: \<^verbatim>\<open>taskContent.split('\n')[0]\<close>.\<close>

definition taskTitle :: "string \<Rightarrow> string" where
  "taskTitle taskContent = hd (split CHR ''\<newline>'' taskContent)"

text \<open>Steps 8 to 10 and the final message: the task text is written to a temporary
  file, published, and the file is deleted whatever the publication returned.\<close>

definition publishAndCleanUp :: "world \<Rightarrow> json \<Rightarrow> json \<Rightarrow> string \<Rightarrow> unit io" where
  "publishAndCleanUp w nsec eventId taskContent =
     (let tempFilePath = path_join w [cwd w, ''temp_task.md''];
          published = publishNostrEvent w nsec eventId (taskTitle taskContent) taskContent
      in ([WriteFile tempFilePath taskContent,
           Console Log (''Wrote task content to temporary file: '' @ tempFilePath)]
          @ fst published
          @ [if snd published
             then Console Log ''Task successfully published as Nostr event''
             else Console Err ''Failed to publish task as Nostr event'']
          @ [Unlink tempFilePath]
          @ (if unlink_fails w tempFilePath
             then [Console Warn (''Warning: Could not delete temporary file: '' @ tempFilePath)]
             else [])
          @ [Console Log ''Script finished successfully''],
          Inr ()))"

text \<open>The body of the \<^verbatim>\<open>try\<close> block, steps 1 to 10. Destructuring \<^verbatim>\<open>null\<close> throws a
  \<^verbatim>\<open>TypeError\<close> (its message is the engine's); any other parsed value is read for
  its two properties.\<close>

definition processTenexTask_try :: "world \<Rightarrow> string \<Rightarrow> unit io" where
  "processTenexTask_try w transcriptFilePath =
     (let absolutePath = path_resolve w transcriptFilePath in
      io_bind (case file_text w absolutePath of
                 None \<Rightarrow> io_throw (Error (''Transcript file not found: '' @ absolutePath))
               | Some text \<Rightarrow> io_return text) (\<lambda>transcriptContent.
      io_bind (io_emit [Console Log (''Read transcript content ('' @
                 show_nat (length transcriptContent) @ '' chars)'')]) (\<lambda>_.
      io_bind (io_lift (getProjectDirectories w)) (\<lambda>projectDirs.
      io_bind (if length projectDirs = 0
               then io_throw (Error (''No project directories found in '' @ TENEX_PROJECTS_DIR w))
               else io_return ()) (\<lambda>_.
      io_bind (findProjectName w transcriptContent projectDirs) (\<lambda>projectDir.
      io_bind (readTenexConfig w projectDir) (\<lambda>tenexConfig.
      io_bind (if tenexConfig = JNull
               then io_throw (TypeError ''Right side of assignment cannot be destructured'')
               else io_return ()) (\<lambda>_.
      let nsec = property tenexConfig ''nsec'';
          eventId = property tenexConfig ''eventId''
      in
      io_bind (if \<not> truthy nsec \<or> \<not> truthy eventId
               then io_throw (Error ''Missing nsec or eventId in .tenex.json'')
               else io_return ()) (\<lambda>_.
      let specPath = path_join w [TENEX_PROJECTS_DIR w, projectDir, ''context'', ''SPEC.md''];
          architecturePath =
            path_join w [TENEX_PROJECTS_DIR w, projectDir, ''context'', ''ARCHITECTURE.md'']
      in
      io_bind (io_lift (readFileIfExists w specPath)) (\<lambda>specContent.
      io_bind (io_lift (readFileIfExists w architecturePath)) (\<lambda>architectureContent.
      io_bind (io_lift (createDetailedTask w transcriptContent specContent architectureContent))
        (\<lambda>taskContent.
      publishAndCleanUp w (the nsec) (the eventId) taskContent))))))))))))"

text \<open>The \<^verbatim>\<open>catch\<close> of the function logs the message of whatever was thrown and ends the
  process with status 1.\<close>

definition processTenexTask :: "world \<Rightarrow> string \<Rightarrow> event list \<times> outcome" where
  "processTenexTask w transcriptFilePath =
     (let attempt = processTenexTask_try w transcriptFilePath
      in case snd attempt of
           Inr _ \<Rightarrow>
             (Console Log (''Processing Tenex task from: '' @ transcriptFilePath) # fst attempt,
              Returned)
         | Inl error \<Rightarrow>
             (Console Log (''Processing Tenex task from: '' @ transcriptFilePath) # fst attempt
                @ [Console Err (''Error during processing: '' @ message error)],
              Exited 1))"

section \<open>Observing a run\<close>

text \<open>The generation calls and the publication calls among the events of a run.\<close>

fun isGeneration :: "event \<Rightarrow> bool" where
  "isGeneration (Generation model prompt) = True"
| "isGeneration _ = False"

fun isPublication :: "event \<Rightarrow> bool" where
  "isPublication (Publication nsec eventId title content relays) = True"
| "isPublication _ = False"

definition generations :: "event list \<Rightarrow> event list" where
  "generations es = filter isGeneration es"

definition publications :: "event list \<Rightarrow> event list" where
  "publications es = filter isPublication es"

text \<open>The value of \<^verbatim>\<open>response\<close> in \<^const>\<open>findProjectName\<close>: what the generation call
  for the project name returned.\<close>

definition findProjectResponse :: "world \<Rightarrow> string \<Rightarrow> string list \<Rightarrow> string" where
  "findProjectResponse w transcriptContent projectDirs =
     snd (queryOllama w (clock w 0) (FIND_PROJECT_MODEL w)
            (findProjectPrompt transcriptContent projectDirs))"

text \<open>The matching rule as the specification words it (section 4.3, step 3), for
  comparison with \<^const>\<open>matchedDir\<close>: the four rules are tried one after the other, each
  over the whole inventory, and the first rule that has a match decides.\<close>

definition priorityMatch :: "string \<Rightarrow> string list \<Rightarrow> string option" where
  "priorityMatch response inventory =
     (case find (\<lambda>dir. dir = response) inventory of
        Some dir \<Rightarrow> Some dir
      | None \<Rightarrow>
     (case find (\<lambda>dir. toLowerCase dir = toLowerCase response) inventory of
        Some dir \<Rightarrow> Some dir
      | None \<Rightarrow>
     (case find (\<lambda>dir. startsWith dir response) inventory of
        Some dir \<Rightarrow> Some dir
      | None \<Rightarrow> find (\<lambda>dir. startsWith response (hd (split CHR ''-'' dir))) inventory)))"

section \<open>A concrete environment\<close>

text \<open>A workspace with two projects and one plain file; the transcript exists, the
  descriptor of every project parses to an object with both fields, the supporting
  documents are missing, and every external call succeeds. The variants below change one
  aspect each.\<close>

definition exampleConfig :: json where
  "exampleConfig =
     JObj [(''nsec'', JStr ''nsec1example''), (''eventId'', JStr ''31933:example:shipyard'')]"

definition exampleWorld :: world where
  "exampleWorld =
     \<lparr> TENEX_PROJECTS_DIR = ''/projects'',
       FIND_PROJECT_MODEL = ''llama3.2'',
       TASK_MODEL = ''qwen2.5'',
       RELAYS = ''wss://relay.primal.net wss://relay.damus.io'',
       cwd = ''/work'',
       path_join = join ''/'',
       path_resolve = (\<lambda>p. ''/work/'' @ p),
       clock = (\<lambda>k. 1700000000000 + k),
       file_text = (\<lambda>p. if p = ''/work/transcript.txt''
                           then Some ''Shipyard should support dark mode'' else None),
       readdir = (\<lambda>p. Inr [\<lparr>name = ''Shipyard-rux5kf'', isDirectory = True\<rparr>,
                              \<lparr>name = ''notes.txt'', isDirectory = False\<rparr>,
                              \<lparr>name = ''Backend-ab12'', isDirectory = True\<rparr>]),
       readFile = (\<lambda>p. if p = ''/projects/Shipyard-rux5kf/.tenex.json''
                          then Inr ''descriptor'' else Inl ''ENOENT: no such file or directory''),
       JSON_parse = (\<lambda>s. Inr exampleConfig),
       ollama = (\<lambda>model prompt.
                   if model = ''llama3.2'' then (''Shipyard\<newline>'', [])
                   else (''Add dark mode\<newline>Detailed body text...\<newline>'', [])),
       unlink_fails = (\<lambda>p. False),
       nak = (\<lambda>nsec eventId title content relays. 0) \<rparr>"

definition withResponse :: "string \<Rightarrow> world \<Rightarrow> world" where
  "withResponse response w =
     w\<lparr>ollama := (\<lambda>model prompt.
          if model = FIND_PROJECT_MODEL w then (response, []) else ollama w model prompt)\<rparr>"

definition withTaskText :: "string \<Rightarrow> world \<Rightarrow> world" where
  "withTaskText text w =
     w\<lparr>ollama := (\<lambda>model prompt.
          if model = TASK_MODEL w then (text, []) else ollama w model prompt)\<rparr>"

definition withEntries :: "dirent list \<Rightarrow> world \<Rightarrow> world" where
  "withEntries entries w = w\<lparr>readdir := (\<lambda>p. Inr entries)\<rparr>"

definition withUnreadableRoot :: "world \<Rightarrow> world" where
  "withUnreadableRoot w = w\<lparr>readdir := (\<lambda>p. Inl ''EACCES: permission denied'')\<rparr>"

definition withConfig :: "json \<Rightarrow> world \<Rightarrow> world" where
  "withConfig config w = w\<lparr>JSON_parse := (\<lambda>s. Inr config)\<rparr>"

definition withExitCode :: "int \<Rightarrow> world \<Rightarrow> world" where
  "withExitCode code w = w\<lparr>nak := (\<lambda>nsec eventId title content relays. code)\<rparr>"

section \<open>Auxiliary facts\<close>

subsection \<open>Lists and strings\<close>

lemma find_first:
  "\<forall>x\<in>set before. \<not> P x \<Longrightarrow> P d \<Longrightarrow> find P (before @ d # after) = Some d"
  by (induction before) auto

lemma find_no_match: "\<forall>x\<in>set xs. \<not> P x \<Longrightarrow> find P xs = None"
  by (induction xs) auto

lemma dirMatches_exact: "dirMatches r r"
  by (simp add: dirMatches_def)

lemma dirMatches_empty_response: "dirMatches [] d"
  by (simp add: dirMatches_def startsWith_def)

text \<open>The table of \<^const>\<open>toLowerChar\<close> by character codes: exactly the codes 65 to 90, and
  192 to 222 without 215, move up by 32.\<close>

lemma toLowerChar_code_point:
  "(of_char (toLowerChar c) :: nat) =
     (if (65 \<le> (of_char c :: nat) \<and> (of_char c :: nat) \<le> 90) \<or>
         (192 \<le> (of_char c :: nat) \<and> (of_char c :: nat) \<le> 222 \<and> (of_char c :: nat) \<noteq> 215)
      then of_char c + 32 else of_char c)"
proof (cases c)
  case (Char b0 b1 b2 b3 b4 b5 b6 b7)
  show ?thesis
    unfolding Char
    by (cases b0; cases b1; cases b2; cases b3; cases b4; cases b5; cases b6; cases b7)
       (simp_all add: toLowerChar_def upperCaseLetters_def lowerCaseLetters_def)
qed

text \<open>Case-insensitive equality reaches the Latin-1 letters: the response \<open>caf\<close> followed
  by 0xE9 matches the directory \<open>CAF\<close> followed by 0xC9.\<close>

lemma matchedDir_latin1_capitals:
  "matchedDir (''caf'' @ [CHR 0xE9]) [''CAF'' @ [CHR 0xC9]] = Some (''CAF'' @ [CHR 0xC9])"
  by (simp add: matchedDir_def dirMatches_def toLowerCase_def toLowerChar_def
      upperCaseLetters_def lowerCaseLetters_def)

lemma trim_empty_iff: "trim s = [] \<longleftrightarrow> (\<forall>c\<in>set s. isWhiteSpace c)"
proof (cases "dropWhile isWhiteSpace s")
  case Nil
  have "trim s = []" unfolding trim_def Nil by simp
  moreover have "\<forall>c\<in>set s. isWhiteSpace c"
    using Nil by (simp add: dropWhile_eq_Nil_conv)
  ultimately show ?thesis by simp
next
  case (Cons x r)
  have "\<not> isWhiteSpace x"
    using Cons hd_dropWhile [of isWhiteSpace s] by simp
  moreover have "x \<in> set s"
    using Cons set_dropWhileD [of x isWhiteSpace s] by simp
  moreover have "trim s \<noteq> []"
    using Cons \<open>\<not> isWhiteSpace x\<close> by (simp add: trim_def)
  ultimately show ?thesis by auto
qed

lemma split_not_Nil: "split c s \<noteq> []"
  by (induction s) (auto split: list.splits)

lemma hd_split: "hd (split c s) = takeWhile (\<lambda>x. x \<noteq> c) s"
  by (induction s) (auto split: list.splits simp: split_not_Nil)

lemma taskTitle_takeWhile: "taskTitle T = takeWhile (\<lambda>c. c \<noteq> CHR ''\<newline>'') T"
  by (simp add: taskTitle_def hd_split)

lemma dropWhile_snoc_keep: "\<not> P x \<Longrightarrow> dropWhile P (ys @ [x]) = dropWhile P ys @ [x]"
  by (induction ys) auto

lemma trim_Cons:
  assumes "dropWhile isWhiteSpace s = x # r"
  shows "trim s = x # rev (dropWhile isWhiteSpace (rev r))"
proof -
  have "\<not> isWhiteSpace x"
    using assms hd_dropWhile [of isWhiteSpace s] by simp
  then show ?thesis
    by (simp add: trim_def assms dropWhile_snoc_keep)
qed

lemma trim_hd:
  assumes "trim s \<noteq> []"
  shows "\<not> isWhiteSpace (hd (trim s))"
proof (cases "dropWhile isWhiteSpace s")
  case Nil
  have "trim s = []" unfolding trim_def Nil by simp
  with assms show ?thesis by simp
next
  case (Cons x r)
  then have "\<not> isWhiteSpace x"
    using hd_dropWhile [of isWhiteSpace s] by simp
  then show ?thesis by (simp add: trim_Cons [OF Cons])
qed

lemma trim_idem: "trim (trim s) = trim s"
proof (cases "trim s = []")
  case True
  have "trim [] = []" unfolding trim_def by simp
  with True show ?thesis by simp
next
  case False
  then have front: "dropWhile isWhiteSpace (trim s) = trim s"
    using trim_hd [OF False] by (cases "trim s") auto
  have rear: "dropWhile isWhiteSpace (rev (trim s)) = rev (trim s)"
    unfolding trim_def rev_rev_ident by (rule dropWhile_idem)
  show ?thesis
    unfolding trim_def [of "trim s"] front rear by simp
qed

lemma taskPrompt_context:
  "\<exists>before after. \<forall>s' a'. taskPrompt t s' a' = before @ contextSection s' a' @ after"
  unfolding taskPrompt_def
  apply (rule exI [of _ "''\<newline>'' @
        ''You are tasked with creating a detailed task for an LLM to work on based on the following transcript.\<newline>'' @
        ''The task should include a clear title, a careful explanation, and high-level action items.\<newline>'' @
        ''\<newline>''"])
  apply (rule exI)
  apply (intro allI)
  apply (simp only: append_assoc)
  done

subsection \<open>Generation and publication calls of each function\<close>

lemma generations_append: "generations (xs @ ys) = generations xs @ generations ys"
  by (simp add: generations_def)

lemma publications_append: "publications (xs @ ys) = publications xs @ publications ys"
  by (simp add: publications_def)

lemma generations_queryOllama: "generations (fst (queryOllama w n m p)) = [Generation m p]"
  by (simp add: queryOllama_def generations_def Let_def)

lemma publications_queryOllama: "publications (fst (queryOllama w n m p)) = []"
  by (simp add: queryOllama_def publications_def Let_def)

lemma generations_getProjectDirectories: "generations (fst (getProjectDirectories w)) = []"
  by (simp add: getProjectDirectories_def generations_def Let_def split: sum.splits)

lemma publications_getProjectDirectories: "publications (fst (getProjectDirectories w)) = []"
  by (simp add: getProjectDirectories_def publications_def Let_def split: sum.splits)

lemma generations_findProjectName:
  "generations (fst (findProjectName w t I)) =
     [Generation (FIND_PROJECT_MODEL w) (findProjectPrompt t I)]"
  using generations_queryOllama [of w "clock w 0" "FIND_PROJECT_MODEL w" "findProjectPrompt t I"]
  by (simp add: findProjectName_def generations_def Let_def)

lemma publications_findProjectName: "publications (fst (findProjectName w t I)) = []"
  using publications_queryOllama [of w "clock w 0" "FIND_PROJECT_MODEL w" "findProjectPrompt t I"]
  by (simp add: findProjectName_def publications_def Let_def)

lemma generations_readTenexConfig: "generations (fst (readTenexConfig w d)) = []"
  by (simp add: readTenexConfig_def generations_def Let_def split: sum.splits)

lemma publications_readTenexConfig: "publications (fst (readTenexConfig w d)) = []"
  by (simp add: readTenexConfig_def publications_def Let_def split: sum.splits)

lemma generations_readFileIfExists: "generations (fst (readFileIfExists w f)) = []"
  by (simp add: readFileIfExists_def generations_def split: sum.splits)

lemma publications_readFileIfExists: "publications (fst (readFileIfExists w f)) = []"
  by (simp add: readFileIfExists_def publications_def split: sum.splits)

lemma generations_createDetailedTask:
  "generations (fst (createDetailedTask w t s a)) = [Generation (TASK_MODEL w) (taskPrompt t s a)]"
  using generations_queryOllama [of w "clock w 1" "TASK_MODEL w" "taskPrompt t s a"]
  by (simp add: createDetailedTask_def generations_def Let_def)

lemma publications_createDetailedTask: "publications (fst (createDetailedTask w t s a)) = []"
  using publications_queryOllama [of w "clock w 1" "TASK_MODEL w" "taskPrompt t s a"]
  by (simp add: createDetailedTask_def publications_def Let_def)

lemma generations_publishAndCleanUp: "generations (fst (publishAndCleanUp w n e T)) = []"
  by (simp add: publishAndCleanUp_def publishNostrEvent_def generations_def Let_def)

lemma publications_publishAndCleanUp:
  "publications (fst (publishAndCleanUp w n e T)) =
     [Publication n e (taskTitle T) T (split CHR '' '' (RELAYS w))]"
  by (simp add: publishAndCleanUp_def publishNostrEvent_def publications_def Let_def)

subsection \<open>The two branches of findProjectName\<close>

lemma findProjectName_matched:
  assumes "matchedDir (findProjectResponse w t I) I = Some d" and "d \<noteq> []"
  shows "snd (findProjectName w t I) = Inr d"
  using assms by (simp add: findProjectName_def findProjectResponse_def Let_def)

lemma findProjectName_unmatched:
  assumes \<open>matchedDir (findProjectResponse w t I) I = None\<close>
  shows \<open>snd (findProjectName w t I) = Inl (Error ''Could not identify project directory'')\<close>
    and \<open>last (fst (findProjectName w t I)) =
           Console Err (''Could not match response "'' @ findProjectResponse w t I @
                        ''" to any project directory'')\<close>
  using assms by (simp_all add: findProjectName_def findProjectResponse_def Let_def)

lemma findProjectResponse_withResponse:
  "findProjectResponse (withResponse r exampleWorld) t I = trim r"
  by (simp add: findProjectResponse_def queryOllama_def withResponse_def exampleWorld_def Let_def)

subsection \<open>The paths through processTenexTask\<close>

lemma processTenexTask_try_no_transcript:
  assumes "file_text w (path_resolve w p) = None"
  shows "processTenexTask_try w p =
           ([], Inl (Error (''Transcript file not found: '' @ path_resolve w p)))"
  using assms
  by (simp add: processTenexTask_try_def io_bind_def io_throw_def Let_def)

lemma processTenexTask_try_empty_inventory:
  assumes "file_text w (path_resolve w p) = Some t"
    and "snd (getProjectDirectories w) = []"
  shows "processTenexTask_try w p =
           (Console Log (''Read transcript content ('' @ show_nat (length t) @ '' chars)'')
              # fst (getProjectDirectories w),
            Inl (Error (''No project directories found in '' @ TENEX_PROJECTS_DIR w)))"
  using assms
  by (simp add: processTenexTask_try_def io_bind_def io_throw_def io_return_def io_emit_def
      io_lift_def Let_def)

lemma truthy_not_JNull: "truthy (property cfg k) \<Longrightarrow> cfg \<noteq> JNull"
  by auto

lemma processTenexTask_try_missing_fields:
  assumes "file_text w (path_resolve w p) = Some t"
    and "snd (getProjectDirectories w) = I" and "I \<noteq> []"
    and "snd (findProjectName w t I) = Inr d"
    and "snd (readTenexConfig w d) = Inr cfg"
    and "\<not> truthy (property cfg ''nsec'') \<or> \<not> truthy (property cfg ''eventId'')"
  shows "fst (processTenexTask_try w p) =
           Console Log (''Read transcript content ('' @ show_nat (length t) @ '' chars)'')
             # fst (getProjectDirectories w) @ fst (findProjectName w t I)
             @ fst (readTenexConfig w d)"
    and "snd (processTenexTask_try w p) =
           Inl (if cfg = JNull
                then TypeError ''Right side of assignment cannot be destructured''
                else Error ''Missing nsec or eventId in .tenex.json'')"
  using assms
  by (auto simp add: processTenexTask_try_def io_bind_def io_throw_def io_return_def io_emit_def
      io_lift_def Let_def)

lemma processTenexTask_try_publishes:
  assumes "file_text w (path_resolve w p) = Some t"
    and "snd (getProjectDirectories w) = I" and "I \<noteq> []"
    and "snd (findProjectName w t I) = Inr d"
    and "snd (readTenexConfig w d) = Inr cfg"
    and "truthy (property cfg ''nsec'')" and "truthy (property cfg ''eventId'')"
    and "s = snd (readFileIfExists w
               (path_join w [TENEX_PROJECTS_DIR w, d, ''context'', ''SPEC.md'']))"
    and "a = snd (readFileIfExists w
               (path_join w [TENEX_PROJECTS_DIR w, d, ''context'', ''ARCHITECTURE.md'']))"
  shows "fst (processTenexTask_try w p) =
           Console Log (''Read transcript content ('' @ show_nat (length t) @ '' chars)'')
             # fst (getProjectDirectories w) @ fst (findProjectName w t I)
             @ fst (readTenexConfig w d)
             @ fst (readFileIfExists w
                 (path_join w [TENEX_PROJECTS_DIR w, d, ''context'', ''SPEC.md'']))
             @ fst (readFileIfExists w
                 (path_join w [TENEX_PROJECTS_DIR w, d, ''context'', ''ARCHITECTURE.md'']))
             @ fst (createDetailedTask w t s a)
             @ fst (publishAndCleanUp w (the (property cfg ''nsec'')) (the (property cfg ''eventId''))
                 (snd (createDetailedTask w t s a)))"
    and "snd (processTenexTask_try w p) = Inr ()"
proof -
  have nn: "cfg \<noteq> JNull" using assms(6) by (rule truthy_not_JNull)
  have pc: "snd (publishAndCleanUp w n e T) = Inr ()" for n e T
    by (simp add: publishAndCleanUp_def Let_def)
  show "fst (processTenexTask_try w p) =
           Console Log (''Read transcript content ('' @ show_nat (length t) @ '' chars)'')
             # fst (getProjectDirectories w) @ fst (findProjectName w t I)
             @ fst (readTenexConfig w d)
             @ fst (readFileIfExists w
                 (path_join w [TENEX_PROJECTS_DIR w, d, ''context'', ''SPEC.md'']))
             @ fst (readFileIfExists w
                 (path_join w [TENEX_PROJECTS_DIR w, d, ''context'', ''ARCHITECTURE.md'']))
             @ fst (createDetailedTask w t s a)
             @ fst (publishAndCleanUp w (the (property cfg ''nsec'')) (the (property cfg ''eventId''))
                 (snd (createDetailedTask w t s a)))"
    using assms nn
    by (simp add: processTenexTask_try_def io_bind_def io_throw_def io_return_def io_emit_def
      io_lift_def Let_def pc)
  show "snd (processTenexTask_try w p) = Inr ()"
    using assms nn
    by (simp add: processTenexTask_try_def io_bind_def io_throw_def io_return_def io_emit_def
      io_lift_def Let_def pc)
qed

lemma processTenexTask_publishes:
  assumes "file_text w (path_resolve w p) = Some t"
    and "snd (getProjectDirectories w) = I" and "I \<noteq> []"
    and "snd (findProjectName w t I) = Inr d"
    and "snd (readTenexConfig w d) = Inr cfg"
    and "truthy (property cfg ''nsec'')" and "truthy (property cfg ''eventId'')"
    and "s = snd (readFileIfExists w
               (path_join w [TENEX_PROJECTS_DIR w, d, ''context'', ''SPEC.md'']))"
    and "a = snd (readFileIfExists w
               (path_join w [TENEX_PROJECTS_DIR w, d, ''context'', ''ARCHITECTURE.md'']))"
  shows "snd (processTenexTask w p) = Returned"
    and "generations (fst (processTenexTask w p)) =
           [Generation (FIND_PROJECT_MODEL w) (findProjectPrompt t I),
            Generation (TASK_MODEL w) (taskPrompt t s a)]"
    and "publications (fst (processTenexTask w p)) =
           [Publication (the (property cfg ''nsec'')) (the (property cfg ''eventId''))
              (taskTitle (snd (createDetailedTask w t s a))) (snd (createDetailedTask w t s a))
              (split CHR '' '' (RELAYS w))]"
    and "\<exists>before. fst (processTenexTask w p) =
           before @ fst (publishAndCleanUp w (the (property cfg ''nsec''))
                          (the (property cfg ''eventId'')) (snd (createDetailedTask w t s a)))"
proof -
  note path = processTenexTask_try_publishes [OF assms]
  have trace: "fst (processTenexTask w p) =
      Console Log (''Processing Tenex task from: '' @ p) # fst (processTenexTask_try w p)"
    by (simp add: processTenexTask_def Let_def path(2))
  show "snd (processTenexTask w p) = Returned"
    by (simp add: processTenexTask_def Let_def path(2))
  show "generations (fst (processTenexTask w p)) =
           [Generation (FIND_PROJECT_MODEL w) (findProjectPrompt t I),
            Generation (TASK_MODEL w) (taskPrompt t s a)]"
    unfolding trace path(1)
    using generations_getProjectDirectories [of w] generations_findProjectName [of w t I]
      generations_readTenexConfig [of w d] generations_readFileIfExists [of w]
      generations_createDetailedTask [of w t s a] generations_publishAndCleanUp [of w]
    by (simp add: generations_def)
  show "publications (fst (processTenexTask w p)) =
           [Publication (the (property cfg ''nsec'')) (the (property cfg ''eventId''))
              (taskTitle (snd (createDetailedTask w t s a))) (snd (createDetailedTask w t s a))
              (split CHR '' '' (RELAYS w))]"
    unfolding trace path(1)
    using publications_getProjectDirectories [of w] publications_findProjectName [of w t I]
      publications_readTenexConfig [of w d] publications_readFileIfExists [of w]
      publications_createDetailedTask [of w t s a]
      publications_publishAndCleanUp [of w "the (property cfg ''nsec'')"
        "the (property cfg ''eventId'')" "snd (createDetailedTask w t s a)"]
    by (simp add: publications_def)
  show "\<exists>before. fst (processTenexTask w p) =
           before @ fst (publishAndCleanUp w (the (property cfg ''nsec''))
                          (the (property cfg ''eventId'')) (snd (createDetailedTask w t s a)))"
    unfolding trace path(1)
    by (metis append_Cons append_assoc)
qed

subsection \<open>The concrete environment\<close>

lemmas world_defs = exampleWorld_def withResponse_def withTaskText_def withEntries_def
  withUnreadableRoot_def withConfig_def withExitCode_def

lemmas string_defs = trim_def isWhiteSpace_def startsWith_def toLowerCase_def toLowerChar_def upperCaseLetters_def
      lowerCaseLetters_def

lemmas resolver_defs = findProjectName_def matchedDir_def dirMatches_def queryOllama_def

lemma exampleWorld_reaches_config:
  assumes "w = withConfig cfg (withExitCode c exampleWorld)"
  shows "file_text w (path_resolve w ''transcript.txt'') = Some ''Shipyard should support dark mode''"
    and "snd (getProjectDirectories w) = [''Shipyard-rux5kf'', ''Backend-ab12'']"
    and "snd (findProjectName w ''Shipyard should support dark mode''
           [''Shipyard-rux5kf'', ''Backend-ab12'']) = Inr ''Shipyard-rux5kf''"
    and "snd (readTenexConfig w ''Shipyard-rux5kf'') = Inr cfg"
  unfolding assms
  by (simp_all add: world_defs string_defs resolver_defs getProjectDirectories_def
      readTenexConfig_def Let_def)

lemma exampleWorld_documents:
  assumes "w = withConfig cfg (withExitCode c exampleWorld)"
  shows "snd (readFileIfExists w
           (path_join w [TENEX_PROJECTS_DIR w, ''Shipyard-rux5kf'', ''context'', ''SPEC.md''])) = []"
    and "snd (readFileIfExists w
           (path_join w [TENEX_PROJECTS_DIR w, ''Shipyard-rux5kf'', ''context'',
              ''ARCHITECTURE.md''])) = []"
    and "snd (createDetailedTask w t [] []) = ''Add dark mode\<newline>Detailed body text...''"
    and "RELAYS w = ''wss://relay.primal.net wss://relay.damus.io''"
  unfolding assms
  by (simp_all add: world_defs string_defs readFileIfExists_def createDetailedTask_def
      queryOllama_def Let_def)

section \<open>Project resolution\<close>

text \<open>
  Claim C1, as the specification states it, fails on the script. The response
  \<open>Shipyard\<close> equals the second entry of the inventory \<open>[Shipyard-rux5kf, Shipyard]\<close>, and
  the rule in priority order picks that entry; the script returns the first entry,
  which starts with the response: \<^verbatim>\<open>find\<close> tests all four comparisons on one entry before
  it looks at the next.
\<close>

theorem findProjectName_exact_entry_counterexample:
  "findProjectResponse (withResponse ''Shipyard'' exampleWorld) ''transcript''
     [''Shipyard-rux5kf'', ''Shipyard''] = ''Shipyard''
   \<and> ''Shipyard'' \<in> set [''Shipyard-rux5kf'', ''Shipyard'']
   \<and> priorityMatch ''Shipyard'' [''Shipyard-rux5kf'', ''Shipyard''] = Some ''Shipyard''
   \<and> snd (findProjectName (withResponse ''Shipyard'' exampleWorld) ''transcript''
        [''Shipyard-rux5kf'', ''Shipyard'']) = Inr ''Shipyard-rux5kf''"
  by (simp add: findProjectName_def findProjectResponse_def matchedDir_def dirMatches_def
      startsWith_def toLowerCase_def toLowerChar_def upperCaseLetters_def
      lowerCaseLetters_def queryOllama_def withResponse_def
      exampleWorld_def Let_def trim_def isWhiteSpace_def priorityMatch_def)

text \<open>
  Claim C1, amended: for every inventory and response \<open>R\<close>, resolution returns the first
  entry, in inventory order, that satisfies at least one of the four rules. So an entry
  (a directory name, hence non-empty) that no matching entry precedes is the one chosen
  when it satisfies a rule, and in particular when it equals \<open>R\<close> exactly.
\<close>

theorem findProjectName_first_matching_entry:
  assumes "findProjectResponse w t (before @ d # after) = R"
    and "\<forall>x\<in>set before. \<not> dirMatches R x"
    and "d \<noteq> []"
  shows "(dirMatches R d \<longrightarrow> snd (findProjectName w t (before @ d # after)) = Inr d)
       \<and> (d = R \<longrightarrow> snd (findProjectName w t (before @ d # after)) = Inr R)"
proof -
  have "snd (findProjectName w t (before @ d # after)) = Inr d" if "dirMatches R d"
  proof (rule findProjectName_matched)
    show "matchedDir (findProjectResponse w t (before @ d # after)) (before @ d # after) = Some d"
      unfolding matchedDir_def assms(1) using assms(2) that by (rule find_first)
  qed (rule assms(3))
  then show ?thesis using dirMatches_exact [of R] by auto
qed

theorem findProjectName_first_matching_entry_witness:
  "findProjectResponse (withResponse ''Shipyard'' exampleWorld) ''transcript''
      ([''Backend-ab12''] @ ''Shipyard'' # [''Shipyard-rux5kf'']) = ''Shipyard''
   \<and> \<not> dirMatches ''Shipyard'' ''Backend-ab12''
   \<and> snd (findProjectName (withResponse ''Shipyard'' exampleWorld) ''transcript''
         ([''Backend-ab12''] @ ''Shipyard'' # [''Shipyard-rux5kf''])) = Inr ''Shipyard''"
proof -
  have r: "findProjectResponse (withResponse ''Shipyard'' exampleWorld) ''transcript''
      ([''Backend-ab12''] @ ''Shipyard'' # [''Shipyard-rux5kf'']) = ''Shipyard''"
    by (simp add: findProjectResponse_withResponse trim_def isWhiteSpace_def)
  have n: "\<forall>x\<in>set [''Backend-ab12'']. \<not> dirMatches ''Shipyard'' x"
    by (simp add: dirMatches_def startsWith_def toLowerCase_def toLowerChar_def upperCaseLetters_def
      lowerCaseLetters_def)
  have e: "''Shipyard'' \<noteq> []" by simp
  show ?thesis
    using findProjectName_first_matching_entry [OF r n e] r n by simp
qed

text \<open>
  Claim C2, as the specification states it, fails on the script: with the response
  \<open>shipyard\<close> and the inventory \<open>[Shipyard-rux5kf]\<close> no comparison holds (the two equality
  tests fail on the suffix, the two prefix tests are case-sensitive), and resolution
  throws.
\<close>

theorem findProjectName_lowercase_shipyard_counterexample:
  "findProjectResponse (withResponse ''shipyard'' exampleWorld) ''transcript''
     [''Shipyard-rux5kf''] = ''shipyard''
   \<and> snd (findProjectName (withResponse ''shipyard'' exampleWorld) ''transcript''
        [''Shipyard-rux5kf'']) = Inl (Error ''Could not identify project directory'')
   \<and> snd (findProjectName (withResponse ''shipyard'' exampleWorld) ''transcript''
        [''Shipyard-rux5kf'']) \<noteq> Inr ''Shipyard-rux5kf''"
  by (simp add: findProjectName_def findProjectResponse_def matchedDir_def dirMatches_def
      startsWith_def toLowerCase_def toLowerChar_def upperCaseLetters_def
      lowerCaseLetters_def queryOllama_def withResponse_def
      exampleWorld_def Let_def trim_def isWhiteSpace_def)

text \<open>
  Claim C2, amended: for the inventory \<open>[Shipyard-rux5kf]\<close>, the response \<open>shipyard\<close>
  makes resolution fail, and the response \<open>Shipyard\<close>, with the directory's own
  capitalisation, resolves to \<open>Shipyard-rux5kf\<close>: the prefix rules recover a missing
  suffix, not a difference of case.
\<close>

theorem findProjectName_shipyard_case_sensitive:
  "(findProjectResponse w t [''Shipyard-rux5kf''] = ''shipyard'' \<longrightarrow>
      snd (findProjectName w t [''Shipyard-rux5kf'']) =
        Inl (Error ''Could not identify project directory''))
   \<and> (findProjectResponse w t [''Shipyard-rux5kf''] = ''Shipyard'' \<longrightarrow>
      snd (findProjectName w t [''Shipyard-rux5kf'']) = Inr ''Shipyard-rux5kf'')"
proof (intro conjI impI)
  assume r: "findProjectResponse w t [''Shipyard-rux5kf''] = ''shipyard''"
  have "matchedDir ''shipyard'' [''Shipyard-rux5kf''] = None"
    by (simp add: matchedDir_def dirMatches_def startsWith_def toLowerCase_def toLowerChar_def upperCaseLetters_def
      lowerCaseLetters_def)
  with r show "snd (findProjectName w t [''Shipyard-rux5kf'']) =
        Inl (Error ''Could not identify project directory'')"
    by (simp add: findProjectName_unmatched(1))
next
  assume r: "findProjectResponse w t [''Shipyard-rux5kf''] = ''Shipyard''"
  have "matchedDir ''Shipyard'' [''Shipyard-rux5kf''] = Some ''Shipyard-rux5kf''"
    by (simp add: matchedDir_def dirMatches_def startsWith_def toLowerCase_def toLowerChar_def upperCaseLetters_def
      lowerCaseLetters_def)
  with r show "snd (findProjectName w t [''Shipyard-rux5kf'']) = Inr ''Shipyard-rux5kf''"
    by (simp add: findProjectName_matched)
qed

theorem findProjectName_shipyard_case_sensitive_witness:
  "snd (findProjectName (withResponse ''shipyard'' exampleWorld) ''transcript''
        [''Shipyard-rux5kf'']) = Inl (Error ''Could not identify project directory'')
   \<and> snd (findProjectName (withResponse ''Shipyard'' exampleWorld) ''transcript''
        [''Shipyard-rux5kf'']) = Inr ''Shipyard-rux5kf''"
  using findProjectName_shipyard_case_sensitive
          [of "withResponse ''shipyard'' exampleWorld" "''transcript''"]
        findProjectName_shipyard_case_sensitive
          [of "withResponse ''Shipyard'' exampleWorld" "''transcript''"]
  by (simp add: findProjectResponse_withResponse trim_def isWhiteSpace_def)

text \<open>
  Claim C3, as the specification states it, fails on the script: the error thrown when
  nothing matches has a fixed message. Two failing resolutions with different responses
  and inventories of different sizes throw the same error, so the error carries
  neither.
\<close>

theorem findProjectName_error_payload_counterexample:
  \<open>findProjectResponse (withResponse ''unrelated-name'' exampleWorld) ''transcript''
     [''Shipyard-rux5kf'', ''Backend-ab12''] = ''unrelated-name''
   \<and> findProjectResponse (withResponse ''shipyard'' exampleWorld) ''transcript''
     [''Shipyard-rux5kf''] = ''shipyard''
   \<and> length [''Shipyard-rux5kf'', ''Backend-ab12''] \<noteq> length [''Shipyard-rux5kf'']
   \<and> snd (findProjectName (withResponse ''unrelated-name'' exampleWorld) ''transcript''
        [''Shipyard-rux5kf'', ''Backend-ab12'']) =
       Inl (Error ''Could not identify project directory'')
   \<and> snd (findProjectName (withResponse ''shipyard'' exampleWorld) ''transcript''
        [''Shipyard-rux5kf'']) =
       Inl (Error ''Could not identify project directory'')\<close>
  by (simp add: findProjectName_def findProjectResponse_def matchedDir_def dirMatches_def
      startsWith_def toLowerCase_def toLowerChar_def upperCaseLetters_def
      lowerCaseLetters_def queryOllama_def withResponse_def
      exampleWorld_def Let_def trim_def isWhiteSpace_def)

text \<open>
  Claim C3, amended: for every inventory and response such that no entry satisfies any
  of the four rules, resolution fails with an error whose message is the fixed text
  \<open>Could not identify project directory\<close>, the same error for every such response and
  inventory, so it carries neither of them; the raw response is written to the error log
  as the last event before the throw, and the failure is not retried: the function has
  made exactly one generation call.
\<close>

theorem findProjectName_no_match_fails:
  assumes \<open>\<forall>dir\<in>set I. \<not> dirMatches (findProjectResponse w t I) dir\<close>
  shows \<open>snd (findProjectName w t I) = Inl (Error ''Could not identify project directory'')
       \<and> last (fst (findProjectName w t I)) =
           Console Err (''Could not match response "'' @ findProjectResponse w t I @
                        ''" to any project directory'')
       \<and> generations (fst (findProjectName w t I)) =
           [Generation (FIND_PROJECT_MODEL w) (findProjectPrompt t I)]
       \<and> ((\<forall>dir\<in>set I'. \<not> dirMatches (findProjectResponse w' t' I') dir) \<longrightarrow>
            snd (findProjectName w' t' I') = snd (findProjectName w t I))\<close>
proof -
  have none: "matchedDir (findProjectResponse w t I) I = None"
    unfolding matchedDir_def using assms by (rule find_no_match)
  have same: "snd (findProjectName w' t' I') = snd (findProjectName w t I)"
    if other: "\<forall>dir\<in>set I'. \<not> dirMatches (findProjectResponse w' t' I') dir"
  proof -
    have "matchedDir (findProjectResponse w' t' I') I' = None"
      unfolding matchedDir_def using other by (rule find_no_match)
    then show ?thesis
      using findProjectName_unmatched(1) [OF none] by (simp add: findProjectName_unmatched(1))
  qed
  show ?thesis
    using findProjectName_unmatched [OF none] generations_findProjectName [of w t I] same
    by simp
qed

theorem findProjectName_no_match_fails_witness:
  \<open>\<not> dirMatches ''unrelated-name'' ''Shipyard-rux5kf''
   \<and> \<not> dirMatches ''unrelated-name'' ''Backend-ab12''
   \<and> snd (findProjectName (withResponse ''unrelated-name'' exampleWorld) ''transcript''
        [''Shipyard-rux5kf'', ''Backend-ab12'']) =
       Inl (Error ''Could not identify project directory'')
   \<and> last (fst (findProjectName (withResponse ''unrelated-name'' exampleWorld) ''transcript''
        [''Shipyard-rux5kf'', ''Backend-ab12''])) =
       Console Err ''Could not match response "unrelated-name" to any project directory''
   \<and> generations (fst (findProjectName (withResponse ''unrelated-name'' exampleWorld)
        ''transcript'' [''Shipyard-rux5kf'', ''Backend-ab12''])) =
       [Generation ''llama3.2''
          (findProjectPrompt ''transcript'' [''Shipyard-rux5kf'', ''Backend-ab12''])]
   \<and> \<not> dirMatches ''shipyard'' ''Shipyard-rux5kf''
   \<and> snd (findProjectName (withResponse ''shipyard'' exampleWorld) ''transcript''
        [''Shipyard-rux5kf'']) =
       snd (findProjectName (withResponse ''unrelated-name'' exampleWorld) ''transcript''
        [''Shipyard-rux5kf'', ''Backend-ab12''])\<close>
proof -
  have r: "findProjectResponse (withResponse ''unrelated-name'' exampleWorld) ''transcript''
      [''Shipyard-rux5kf'', ''Backend-ab12''] = ''unrelated-name''"
    by (simp add: findProjectResponse_withResponse trim_def isWhiteSpace_def)
  have r': "findProjectResponse (withResponse ''shipyard'' exampleWorld) ''transcript''
      [''Shipyard-rux5kf''] = ''shipyard''"
    by (simp add: findProjectResponse_withResponse trim_def isWhiteSpace_def)
  have n: "\<forall>dir\<in>set [''Shipyard-rux5kf'', ''Backend-ab12''].
             \<not> dirMatches ''unrelated-name'' dir"
    by (simp add: dirMatches_def startsWith_def toLowerCase_def toLowerChar_def
        upperCaseLetters_def lowerCaseLetters_def)
  have n': "\<forall>dir\<in>set [''Shipyard-rux5kf'']. \<not> dirMatches ''shipyard'' dir"
    by (simp add: dirMatches_def startsWith_def toLowerCase_def toLowerChar_def
        upperCaseLetters_def lowerCaseLetters_def)
  have m: "FIND_PROJECT_MODEL (withResponse ''unrelated-name'' exampleWorld) = ''llama3.2''"
    by (simp add: withResponse_def exampleWorld_def)
  show ?thesis
    using findProjectName_no_match_fails
      [of "[''Shipyard-rux5kf'', ''Backend-ab12'']"
          "withResponse ''unrelated-name'' exampleWorld" "''transcript''"
          "[''Shipyard-rux5kf'']" "withResponse ''shipyard'' exampleWorld" "''transcript''"]
      n n'
    unfolding r r' m by simp
qed

text \<open>
  Claim C9: for every non-empty inventory (of directory names, which are non-empty
  strings), an empty response never makes resolution fail: the first entry is returned,
  because every name starts with the empty string.
\<close>

theorem findProjectName_empty_response:
  assumes "findProjectResponse w t I = []" and "I \<noteq> []" and "[] \<notin> set I"
  shows "snd (findProjectName w t I) = Inr (hd I)"
proof -
  from assms(2) obtain d rest where I: "I = d # rest" by (cases I) auto
  with assms(3) have d: "d \<noteq> []" by auto
  have "matchedDir (findProjectResponse w t I) I = Some d"
    unfolding assms(1) by (simp add: I matchedDir_def dirMatches_empty_response)
  then show ?thesis using d by (simp add: findProjectName_matched I)
qed

theorem findProjectName_empty_response_witness:
  "findProjectResponse (withResponse [] exampleWorld) ''transcript''
     [''Shipyard-rux5kf'', ''Backend-ab12''] = []
   \<and> snd (findProjectName (withResponse [] exampleWorld) ''transcript''
        [''Shipyard-rux5kf'', ''Backend-ab12'']) = Inr ''Shipyard-rux5kf''"
proof -
  have r: "findProjectResponse (withResponse [] exampleWorld) ''transcript''
     [''Shipyard-rux5kf'', ''Backend-ab12''] = []"
    by (simp add: findProjectResponse_withResponse trim_def)
  show ?thesis
    using findProjectName_empty_response [OF r] r by simp
qed

section \<open>The pipeline\<close>

text \<open>
  Claim C8: the directory inventory is the empty sequence, not an error, when reading
  the workspace root fails and when the root has no subdirectory; and whenever the
  inventory is empty the run ends with exit status 1 without a single generation call.
\<close>

theorem empty_inventory_aborts:
  "(readdir w (TENEX_PROJECTS_DIR w) = Inl error_message \<longrightarrow>
      snd (getProjectDirectories w) = [])
   \<and> (readdir w (TENEX_PROJECTS_DIR w) = Inr entries \<and> (\<forall>e\<in>set entries. \<not> isDirectory e) \<longrightarrow>
      snd (getProjectDirectories w) = [])
   \<and> (snd (getProjectDirectories w) = [] \<longrightarrow>
      snd (processTenexTask w p) = Exited 1 \<and> generations (fst (processTenexTask w p)) = [])"
proof (intro conjI impI)
  assume "readdir w (TENEX_PROJECTS_DIR w) = Inl error_message"
  then show "snd (getProjectDirectories w) = []"
    by (simp add: getProjectDirectories_def)
next
  assume "readdir w (TENEX_PROJECTS_DIR w) = Inr entries \<and> (\<forall>e\<in>set entries. \<not> isDirectory e)"
  then show "snd (getProjectDirectories w) = []"
    by (simp add: getProjectDirectories_def Let_def filter_empty_conv)
next
  assume empty: "snd (getProjectDirectories w) = []"
  show "snd (processTenexTask w p) = Exited 1"
  proof (cases "file_text w (path_resolve w p)")
    case None
    then show ?thesis
      by (simp add: processTenexTask_def processTenexTask_try_no_transcript)
  next
    case (Some t)
    then show ?thesis
      by (simp add: processTenexTask_def processTenexTask_try_empty_inventory [OF Some empty])
  qed
next
  assume empty: "snd (getProjectDirectories w) = []"
  show "generations (fst (processTenexTask w p)) = []"
  proof (cases "file_text w (path_resolve w p)")
    case None
    then show ?thesis
      by (simp add: processTenexTask_def processTenexTask_try_no_transcript generations_def)
  next
    case (Some t)
    have "generations (fst (processTenexTask w p)) = generations (fst (getProjectDirectories w))"
      by (simp add: processTenexTask_def processTenexTask_try_empty_inventory [OF Some empty]
          generations_def)
    then show ?thesis by (simp add: generations_getProjectDirectories)
  qed
qed

theorem empty_inventory_aborts_witness:
  "snd (getProjectDirectories (withUnreadableRoot exampleWorld)) = []
   \<and> snd (processTenexTask (withUnreadableRoot exampleWorld) ''transcript.txt'') = Exited 1
   \<and> generations (fst (processTenexTask (withUnreadableRoot exampleWorld) ''transcript.txt'')) = []
   \<and> \<not> isDirectory \<lparr>name = ''notes.txt'', isDirectory = False\<rparr>
   \<and> snd (getProjectDirectories
        (withEntries [\<lparr>name = ''notes.txt'', isDirectory = False\<rparr>] exampleWorld)) = []
   \<and> snd (processTenexTask
        (withEntries [\<lparr>name = ''notes.txt'', isDirectory = False\<rparr>] exampleWorld)
        ''transcript.txt'') = Exited 1
   \<and> generations (fst (processTenexTask
        (withEntries [\<lparr>name = ''notes.txt'', isDirectory = False\<rparr>] exampleWorld)
        ''transcript.txt'')) = []"
proof -
  have unreadable: "readdir (withUnreadableRoot exampleWorld)
      (TENEX_PROJECTS_DIR (withUnreadableRoot exampleWorld)) = Inl ''EACCES: permission denied''"
    by (simp add: withUnreadableRoot_def exampleWorld_def)
  have no_dirs: "readdir (withEntries [\<lparr>name = ''notes.txt'', isDirectory = False\<rparr>] exampleWorld)
      (TENEX_PROJECTS_DIR (withEntries [\<lparr>name = ''notes.txt'', isDirectory = False\<rparr>] exampleWorld))
      = Inr [\<lparr>name = ''notes.txt'', isDirectory = False\<rparr>]"
    by (simp add: withEntries_def exampleWorld_def)
  show ?thesis
    using empty_inventory_aborts
            [of "withUnreadableRoot exampleWorld" "''EACCES: permission denied''" "[]"
                "''transcript.txt''"]
          empty_inventory_aborts
            [of "withEntries [\<lparr>name = ''notes.txt'', isDirectory = False\<rparr>] exampleWorld"
                "[]" "[\<lparr>name = ''notes.txt'', isDirectory = False\<rparr>]" "''transcript.txt''"]
    unfolding unreadable no_dirs by simp
qed

text \<open>
  Claim C5: whenever the descriptor of the resolved project lacks a usable \<^verbatim>\<open>nsec\<close> or
  \<^verbatim>\<open>eventId\<close> (absent, empty, or otherwise falsy), the run ends with exit status 1; the
  only generation call it has made is the one that resolved the project, so the
  task-synthesis call is never made, and there is no publication call. The error
  reported is \<open>Missing nsec or eventId in .tenex.json\<close>, unless the descriptor is the
  JSON value \<^verbatim>\<open>null\<close>, whose destructuring already throws.
\<close>

theorem missing_field_aborts:
  assumes "file_text w (path_resolve w p) = Some t"
    and "snd (getProjectDirectories w) = I" and "I \<noteq> []"
    and "snd (findProjectName w t I) = Inr d"
    and "snd (readTenexConfig w d) = Inr cfg"
    and "\<not> truthy (property cfg ''nsec'') \<or> \<not> truthy (property cfg ''eventId'')"
  shows "snd (processTenexTask w p) = Exited 1
       \<and> generations (fst (processTenexTask w p)) =
           [Generation (FIND_PROJECT_MODEL w) (findProjectPrompt t I)]
       \<and> publications (fst (processTenexTask w p)) = []
       \<and> (cfg \<noteq> JNull \<longrightarrow> last (fst (processTenexTask w p)) =
             Console Err ''Error during processing: Missing nsec or eventId in .tenex.json'')"
proof -
  note path = processTenexTask_try_missing_fields [OF assms]
  have trace: "fst (processTenexTask w p) =
      Console Log (''Processing Tenex task from: '' @ p) # fst (processTenexTask_try w p)
      @ [Console Err (''Error during processing: '' @
           message (if cfg = JNull
                then TypeError ''Right side of assignment cannot be destructured''
                else Error ''Missing nsec or eventId in .tenex.json''))]"
    by (simp add: processTenexTask_def Let_def path(2))
  have "snd (processTenexTask w p) = Exited 1"
    by (simp add: processTenexTask_def Let_def path(2))
  moreover have "generations (fst (processTenexTask w p)) =
           [Generation (FIND_PROJECT_MODEL w) (findProjectPrompt t I)]"
    unfolding trace path(1)
    using generations_getProjectDirectories [of w] generations_findProjectName [of w t I]
      generations_readTenexConfig [of w d]
    by (simp add: generations_def)
  moreover have "publications (fst (processTenexTask w p)) = []"
    unfolding trace path(1)
    using publications_getProjectDirectories [of w] publications_findProjectName [of w t I]
      publications_readTenexConfig [of w d]
    by (simp add: publications_def)
  moreover have "last (fst (processTenexTask w p)) =
             Console Err ''Error during processing: Missing nsec or eventId in .tenex.json''"
    if "cfg \<noteq> JNull"
    unfolding trace using that by simp
  ultimately show ?thesis by simp
qed

theorem missing_field_aborts_witness:
  "snd (processTenexTask
          (withConfig (JObj [(''nsec'', JStr ''nsec1example'')]) (withExitCode 0 exampleWorld))
          ''transcript.txt'') = Exited 1
   \<and> generations (fst (processTenexTask
          (withConfig (JObj [(''nsec'', JStr ''nsec1example'')]) (withExitCode 0 exampleWorld))
          ''transcript.txt'')) =
       [Generation ''llama3.2'' (findProjectPrompt ''Shipyard should support dark mode''
          [''Shipyard-rux5kf'', ''Backend-ab12''])]
   \<and> publications (fst (processTenexTask
          (withConfig (JObj [(''nsec'', JStr ''nsec1example'')]) (withExitCode 0 exampleWorld))
          ''transcript.txt'')) = []
   \<and> last (fst (processTenexTask
          (withConfig (JObj [(''nsec'', JStr ''nsec1example'')]) (withExitCode 0 exampleWorld))
          ''transcript.txt'')) =
       Console Err ''Error during processing: Missing nsec or eventId in .tenex.json''
   \<and> snd (processTenexTask
          (withConfig (JObj [(''nsec'', JStr []), (''eventId'', JStr ''31933:example:shipyard'')])
             (withExitCode 0 exampleWorld))
          ''transcript.txt'') = Exited 1
   \<and> publications (fst (processTenexTask
          (withConfig (JObj [(''nsec'', JStr []), (''eventId'', JStr ''31933:example:shipyard'')])
             (withExitCode 0 exampleWorld))
          ''transcript.txt'')) = []"
proof -
  note reach' = exampleWorld_reaches_config [OF refl,
      of "JObj [(''nsec'', JStr []), (''eventId'', JStr ''31933:example:shipyard'')]" 0]
  have fields': "\<not> truthy (property
        (JObj [(''nsec'', JStr []), (''eventId'', JStr ''31933:example:shipyard'')]) ''nsec'')
      \<or> \<not> truthy (property
        (JObj [(''nsec'', JStr []), (''eventId'', JStr ''31933:example:shipyard'')]) ''eventId'')"
    by simp
  note reach = exampleWorld_reaches_config [OF refl,
      of "JObj [(''nsec'', JStr ''nsec1example'')]" 0]
  have fields: "\<not> truthy (property (JObj [(''nsec'', JStr ''nsec1example'')]) ''nsec'')
      \<or> \<not> truthy (property (JObj [(''nsec'', JStr ''nsec1example'')]) ''eventId'')"
    by simp
  have model: "FIND_PROJECT_MODEL
      (withConfig (JObj [(''nsec'', JStr ''nsec1example'')]) (withExitCode 0 exampleWorld))
      = ''llama3.2''"
    by (simp add: world_defs)
  show ?thesis
    using missing_field_aborts [OF reach(1) reach(2) _ reach(3) reach(4) fields]
      missing_field_aborts [OF reach'(1) reach'(2) _ reach'(3) reach'(4) fields']
    unfolding model by simp
qed

section \<open>Task synthesis and publication\<close>

text \<open>
  Claim C6: a supporting document that cannot be read yields the empty string and no
  exception. The context part of the task prompt is empty when both documents are
  empty, holds exactly the labelled block of the non-empty document when one is empty,
  and holds the specification block followed by the architecture block when neither is;
  the prompt sent to the task model contains the documents only through that part.
\<close>

theorem optional_documents_in_prompt:
  "(readFile w f = Inl m \<longrightarrow>
      readFileIfExists w f = ([Console Log (''File not found: '' @ f)], []))
   \<and> contextSection [] [] = []
   \<and> (s \<noteq> [] \<longrightarrow> contextSection s [] =
        ''\<newline>For context, here are the project's specification and architecture documents:\<newline>\<newline>''
        @ ''<SPEC>\<newline>'' @ s @ ''</SPEC>'')
   \<and> (a \<noteq> [] \<longrightarrow> contextSection [] a =
        ''\<newline>For context, here are the project's specification and architecture documents:\<newline>\<newline>''
        @ ''<ARCHITECTURE>\<newline>'' @ a @ ''</ARCHITECTURE>'')
   \<and> (s \<noteq> [] \<and> a \<noteq> [] \<longrightarrow> contextSection s a =
        ''\<newline>For context, here are the project's specification and architecture documents:\<newline>\<newline>''
        @ ''<SPEC>\<newline>'' @ s @ ''</SPEC>'' @ ''\<newline>\<newline>''
        @ ''<ARCHITECTURE>\<newline>'' @ a @ ''</ARCHITECTURE>'')
   \<and> (\<exists>before after. \<forall>s' a'. taskPrompt t s' a' = before @ contextSection s' a' @ after)
   \<and> generations (fst (createDetailedTask w t s a)) =
       [Generation (TASK_MODEL w) (taskPrompt t s a)]"
proof (intro conjI impI)
  assume "readFile w f = Inl m"
  then show "readFileIfExists w f = ([Console Log (''File not found: '' @ f)], [])"
    by (simp add: readFileIfExists_def)
next
  show "contextSection [] [] = []"
    by (simp add: contextSection_def contextInfo_def)
next
  assume "s \<noteq> []"
  then show "contextSection s [] =
        ''\<newline>For context, here are the project's specification and architecture documents:\<newline>\<newline>''
        @ ''<SPEC>\<newline>'' @ s @ ''</SPEC>''"
    by (simp add: contextSection_def contextInfo_def)
next
  assume "a \<noteq> []"
  then show "contextSection [] a =
        ''\<newline>For context, here are the project's specification and architecture documents:\<newline>\<newline>''
        @ ''<ARCHITECTURE>\<newline>'' @ a @ ''</ARCHITECTURE>''"
    by (simp add: contextSection_def contextInfo_def)
next
  assume "s \<noteq> [] \<and> a \<noteq> []"
  then show "contextSection s a =
        ''\<newline>For context, here are the project's specification and architecture documents:\<newline>\<newline>''
        @ ''<SPEC>\<newline>'' @ s @ ''</SPEC>'' @ ''\<newline>\<newline>''
        @ ''<ARCHITECTURE>\<newline>'' @ a @ ''</ARCHITECTURE>''"
    by (simp add: contextSection_def contextInfo_def)
next
  show "\<exists>before after. \<forall>s' a'. taskPrompt t s' a' = before @ contextSection s' a' @ after"
    by (rule taskPrompt_context)
next
  show "generations (fst (createDetailedTask w t s a)) =
       [Generation (TASK_MODEL w) (taskPrompt t s a)]"
    by (rule generations_createDetailedTask)
qed

theorem optional_documents_in_prompt_witness:
  "readFileIfExists exampleWorld ''/projects/Shipyard-rux5kf/context/SPEC.md'' =
     ([Console Log ''File not found: /projects/Shipyard-rux5kf/context/SPEC.md''], [])
   \<and> contextSection [] [] = []
   \<and> contextSection ''Goals'' [] =
       ''\<newline>For context, here are the project's specification and architecture documents:\<newline>\<newline><SPEC>\<newline>Goals</SPEC>''
   \<and> contextSection [] ''Layers'' =
       ''\<newline>For context, here are the project's specification and architecture documents:\<newline>\<newline><ARCHITECTURE>\<newline>Layers</ARCHITECTURE>''
   \<and> contextSection ''Goals'' ''Layers'' =
       ''\<newline>For context, here are the project's specification and architecture documents:\<newline>\<newline><SPEC>\<newline>Goals</SPEC>\<newline>\<newline><ARCHITECTURE>\<newline>Layers</ARCHITECTURE>''
   \<and> generations (fst (createDetailedTask exampleWorld ''transcript'' ''Goals'' ''Layers'')) =
       [Generation ''qwen2.5'' (taskPrompt ''transcript'' ''Goals'' ''Layers'')]"
proof -
  have missing: "readFile exampleWorld ''/projects/Shipyard-rux5kf/context/SPEC.md'' =
      Inl ''ENOENT: no such file or directory''"
    by (simp add: exampleWorld_def)
  have model: "TASK_MODEL exampleWorld = ''qwen2.5''"
    by (simp add: exampleWorld_def)
  show ?thesis
    using optional_documents_in_prompt
      [of exampleWorld "''/projects/Shipyard-rux5kf/context/SPEC.md''"
          "''ENOENT: no such file or directory''" "''Goals''" "''Layers''" "''transcript''"]
    unfolding missing model by simp
qed

text \<open>
  Claim C10, as stated, fails on the script: the output of a blank and a line feed is a
  non-empty generation output, it trims to the empty text, and the title extracted from
  it is the empty string.
\<close>

theorem task_title_blank_output_counterexample:
  "fst (ollama (withTaskText '' \<newline>'' exampleWorld)
         (TASK_MODEL (withTaskText '' \<newline>'' exampleWorld))
         (taskPrompt ''transcript'' [] [])) = '' \<newline>''
   \<and> '' \<newline>'' \<noteq> []
   \<and> snd (createDetailedTask (withTaskText '' \<newline>'' exampleWorld) ''transcript'' [] []) = []
   \<and> taskTitle (snd (createDetailedTask (withTaskText '' \<newline>'' exampleWorld)
         ''transcript'' [] [])) = []"
  by (simp add: createDetailedTask_def queryOllama_def Let_def taskTitle_def withTaskText_def
      exampleWorld_def trim_def isWhiteSpace_def)

text \<open>
  Claim C10, amended: the task text the pipeline works with is the trimmed output of the
  generation command, so for every generation output that contains a character other
  than white space its line zero, the title, is non-empty and does not start with white
  space; a leading blank line of the output never becomes the title. An output of white
  space only (the empty output included) gives the empty title.
\<close>

theorem task_title_after_trim:
  "snd (createDetailedTask w t s a) = trim (fst (ollama w (TASK_MODEL w) (taskPrompt t s a)))
   \<and> ((\<exists>c\<in>set (fst (ollama w (TASK_MODEL w) (taskPrompt t s a))). \<not> isWhiteSpace c) \<longrightarrow>
        taskTitle (snd (createDetailedTask w t s a)) \<noteq> []
        \<and> \<not> isWhiteSpace (hd (taskTitle (snd (createDetailedTask w t s a)))))
   \<and> ((\<forall>c\<in>set (fst (ollama w (TASK_MODEL w) (taskPrompt t s a))). isWhiteSpace c) \<longrightarrow>
        taskTitle (snd (createDetailedTask w t s a)) = [])"
proof (intro conjI impI)
  let ?raw = "fst (ollama w (TASK_MODEL w) (taskPrompt t s a))"
  let ?G = "snd (createDetailedTask w t s a)"
  show trimmed: "?G = trim ?raw"
    by (simp add: createDetailedTask_def queryOllama_def Let_def trim_idem)
  {
    assume "\<exists>c\<in>set ?raw. \<not> isWhiteSpace c"
    then have nonempty: "?G \<noteq> []"
      unfolding trimmed by (simp add: trim_empty_iff)
    then have first: "\<not> isWhiteSpace (hd ?G)"
      unfolding trimmed by (rule trim_hd)
    have "isWhiteSpace CHR ''\<newline>''" by (simp add: isWhiteSpace_def)
    with first have "hd ?G \<noteq> CHR ''\<newline>''" by auto
    with nonempty have title: "taskTitle ?G = hd ?G # takeWhile (\<lambda>c. c \<noteq> CHR ''\<newline>'') (tl ?G)"
      unfolding taskTitle_takeWhile by (cases ?G) auto
    show "taskTitle ?G \<noteq> []" unfolding title by simp
    show "\<not> isWhiteSpace (hd (taskTitle ?G))" unfolding title using first by simp
  }
  assume "\<forall>c\<in>set ?raw. isWhiteSpace c"
  then have "?G = []"
    unfolding trimmed by (simp add: trim_empty_iff)
  then show "taskTitle ?G = []" by (simp add: taskTitle_takeWhile)
qed

theorem task_title_after_trim_witness:
  "snd (createDetailedTask
          (withTaskText ''\<newline>\<newline>  Add dark mode\<newline>Body\<newline>'' exampleWorld)
          ''transcript'' [] []) = ''Add dark mode\<newline>Body''
   \<and> taskTitle (snd (createDetailedTask
          (withTaskText ''\<newline>\<newline>  Add dark mode\<newline>Body\<newline>'' exampleWorld)
          ''transcript'' [] [])) = ''Add dark mode''
   \<and> taskTitle (snd (createDetailedTask
          (withTaskText ''\<newline>\<newline>  Add dark mode\<newline>Body\<newline>'' exampleWorld)
          ''transcript'' [] [])) \<noteq> []
   \<and> \<not> isWhiteSpace (hd (taskTitle (snd (createDetailedTask
          (withTaskText ''\<newline>\<newline>  Add dark mode\<newline>Body\<newline>'' exampleWorld)
          ''transcript'' [] []))))
   \<and> taskTitle (snd (createDetailedTask (withTaskText ''\<newline>  \<newline>'' exampleWorld)
          ''transcript'' [] [])) = []"
proof -
  have raw: "fst (ollama
          (withTaskText ''\<newline>\<newline>  Add dark mode\<newline>Body\<newline>'' exampleWorld)
          (TASK_MODEL (withTaskText ''\<newline>\<newline>  Add dark mode\<newline>Body\<newline>'' exampleWorld))
          (taskPrompt ''transcript'' [] [])) = ''\<newline>\<newline>  Add dark mode\<newline>Body\<newline>''"
    by (simp add: withTaskText_def exampleWorld_def)
  have letter: "\<exists>c\<in>set ''\<newline>\<newline>  Add dark mode\<newline>Body\<newline>''. \<not> isWhiteSpace c"
    by (simp add: isWhiteSpace_def)
  have raw': "fst (ollama (withTaskText ''\<newline>  \<newline>'' exampleWorld)
          (TASK_MODEL (withTaskText ''\<newline>  \<newline>'' exampleWorld))
          (taskPrompt ''transcript'' [] [])) = ''\<newline>  \<newline>''"
    by (simp add: withTaskText_def exampleWorld_def)
  have blank: "\<forall>c\<in>set ''\<newline>  \<newline>''. isWhiteSpace c"
    by (simp add: isWhiteSpace_def)
  have trimmed: "trim ''\<newline>\<newline>  Add dark mode\<newline>Body\<newline>'' = ''Add dark mode\<newline>Body''"
    by (simp add: trim_def isWhiteSpace_def)
  have content: "snd (createDetailedTask
          (withTaskText ''\<newline>\<newline>  Add dark mode\<newline>Body\<newline>'' exampleWorld)
          ''transcript'' [] []) = ''Add dark mode\<newline>Body''"
    using task_title_after_trim
      [of "withTaskText ''\<newline>\<newline>  Add dark mode\<newline>Body\<newline>'' exampleWorld"
          "''transcript''" "[]" "[]"]
    unfolding raw trimmed by blast
  have title: "taskTitle (snd (createDetailedTask
          (withTaskText ''\<newline>\<newline>  Add dark mode\<newline>Body\<newline>'' exampleWorld)
          ''transcript'' [] [])) \<noteq> []
      \<and> \<not> isWhiteSpace (hd (taskTitle (snd (createDetailedTask
          (withTaskText ''\<newline>\<newline>  Add dark mode\<newline>Body\<newline>'' exampleWorld)
          ''transcript'' [] []))))"
    using task_title_after_trim
      [of "withTaskText ''\<newline>\<newline>  Add dark mode\<newline>Body\<newline>'' exampleWorld"
          "''transcript''" "[]" "[]"] letter
    unfolding raw by blast
  have empty: "taskTitle (snd (createDetailedTask (withTaskText ''\<newline>  \<newline>'' exampleWorld)
          ''transcript'' [] [])) = []"
    using task_title_after_trim
      [of "withTaskText ''\<newline>  \<newline>'' exampleWorld" "''transcript''" "[]" "[]"] blank
    unfolding raw' by blast
  have line: "taskTitle ''Add dark mode\<newline>Body'' = ''Add dark mode''"
    by (simp add: taskTitle_def)
  show ?thesis
    using title empty unfolding content line by simp
qed

text \<open>
  Claim C4: for every task text \<open>T\<close> the title is the part of \<open>T\<close> before its first line
  feed (all of \<open>T\<close> when it has none), and the publication call receives that title
  together with the whole of \<open>T\<close> as content; in a run that reaches publication, \<open>T\<close> is
  the text returned by the task-synthesis step.
\<close>

theorem title_is_first_line:
  "taskTitle T = takeWhile (\<lambda>c. c \<noteq> CHR ''\<newline>'') T
   \<and> publications (fst (publishAndCleanUp w nsec eventId T)) =
       [Publication nsec eventId (takeWhile (\<lambda>c. c \<noteq> CHR ''\<newline>'') T) T
          (split CHR '' '' (RELAYS w))]
   \<and> (file_text w (path_resolve w p) = Some t
       \<and> snd (getProjectDirectories w) = I \<and> I \<noteq> []
       \<and> snd (findProjectName w t I) = Inr d
       \<and> snd (readTenexConfig w d) = Inr cfg
       \<and> truthy (property cfg ''nsec'') \<and> truthy (property cfg ''eventId'')
       \<and> s = snd (readFileIfExists w
                 (path_join w [TENEX_PROJECTS_DIR w, d, ''context'', ''SPEC.md'']))
       \<and> a = snd (readFileIfExists w
                 (path_join w [TENEX_PROJECTS_DIR w, d, ''context'', ''ARCHITECTURE.md'']))
       \<and> G = snd (createDetailedTask w t s a)
      \<longrightarrow> publications (fst (processTenexTask w p)) =
            [Publication (the (property cfg ''nsec'')) (the (property cfg ''eventId''))
               (takeWhile (\<lambda>c. c \<noteq> CHR ''\<newline>'') G) G (split CHR '' '' (RELAYS w))])"
proof (intro conjI impI)
  show "taskTitle T = takeWhile (\<lambda>c. c \<noteq> CHR ''\<newline>'') T"
    by (rule taskTitle_takeWhile)
  show "publications (fst (publishAndCleanUp w nsec eventId T)) =
       [Publication nsec eventId (takeWhile (\<lambda>c. c \<noteq> CHR ''\<newline>'') T) T
          (split CHR '' '' (RELAYS w))]"
    unfolding publications_publishAndCleanUp taskTitle_takeWhile by (rule refl)
next
  assume h: "file_text w (path_resolve w p) = Some t
       \<and> snd (getProjectDirectories w) = I \<and> I \<noteq> []
       \<and> snd (findProjectName w t I) = Inr d
       \<and> snd (readTenexConfig w d) = Inr cfg
       \<and> truthy (property cfg ''nsec'') \<and> truthy (property cfg ''eventId'')
       \<and> s = snd (readFileIfExists w
                 (path_join w [TENEX_PROJECTS_DIR w, d, ''context'', ''SPEC.md'']))
       \<and> a = snd (readFileIfExists w
                 (path_join w [TENEX_PROJECTS_DIR w, d, ''context'', ''ARCHITECTURE.md'']))
       \<and> G = snd (createDetailedTask w t s a)"
  then have "publications (fst (processTenexTask w p)) =
           [Publication (the (property cfg ''nsec'')) (the (property cfg ''eventId''))
              (taskTitle (snd (createDetailedTask w t s a))) (snd (createDetailedTask w t s a))
              (split CHR '' '' (RELAYS w))]"
    by (intro processTenexTask_publishes(3) [where I = I and d = d]) simp_all
  with h show "publications (fst (processTenexTask w p)) =
            [Publication (the (property cfg ''nsec'')) (the (property cfg ''eventId''))
               (takeWhile (\<lambda>c. c \<noteq> CHR ''\<newline>'') G) G (split CHR '' '' (RELAYS w))]"
    by (simp add: taskTitle_takeWhile)
qed

theorem title_is_first_line_witness:
  "publications (fst (processTenexTask (withConfig exampleConfig (withExitCode 0 exampleWorld))
      ''transcript.txt'')) =
     [Publication (JStr ''nsec1example'') (JStr ''31933:example:shipyard'')
        ''Add dark mode'' ''Add dark mode\<newline>Detailed body text...''
        [''wss://relay.primal.net'', ''wss://relay.damus.io'']]"
proof -
  note reach = exampleWorld_reaches_config [OF refl, of exampleConfig 0]
  note docs = exampleWorld_documents [OF refl, of exampleConfig 0]
  show ?thesis
    using title_is_first_line
      [of "[]" "withConfig exampleConfig (withExitCode 0 exampleWorld)" JNull JNull
          "''transcript.txt''" "''Shipyard should support dark mode''"
          "[''Shipyard-rux5kf'', ''Backend-ab12'']" "''Shipyard-rux5kf''" exampleConfig
          "[]" "[]" "''Add dark mode\<newline>Detailed body text...''"]
    unfolding reach docs
    by (simp add: exampleConfig_def)
qed

text \<open>
  Claim C7: a publication command that exits with a non-zero status makes
  \<^verbatim>\<open>publishNostrEvent\<close> return \<^verbatim>\<open>false\<close>, not throw; the caller logs the failure,
  then deletes the temporary task file (warning if the deletion fails) and finishes: the
  run returns normally, with the deletion after the publication in its events.
\<close>

theorem failed_publication_still_cleans_up:
  "(nak w nsec eventId title T (split CHR '' '' (RELAYS w)) \<noteq> 0 \<longrightarrow>
      snd (publishNostrEvent w nsec eventId title T) = False)
   \<and> (nak w nsec eventId (taskTitle T) T (split CHR '' '' (RELAYS w)) \<noteq> 0 \<longrightarrow>
      publishAndCleanUp w nsec eventId T =
        ([WriteFile (path_join w [cwd w, ''temp_task.md'']) T,
          Console Log (''Wrote task content to temporary file: '' @
                       path_join w [cwd w, ''temp_task.md'']),
          Console Log ''Publishing Nostr event...'',
          Publication nsec eventId (taskTitle T) T (split CHR '' '' (RELAYS w)),
          Console Err (''Error publishing Nostr event, exit code: '' @
                       show_int (nak w nsec eventId (taskTitle T) T (split CHR '' '' (RELAYS w)))),
          Console Err ''Failed to publish task as Nostr event'',
          Unlink (path_join w [cwd w, ''temp_task.md''])]
         @ (if unlink_fails w (path_join w [cwd w, ''temp_task.md''])
            then [Console Warn (''Warning: Could not delete temporary file: '' @
                                path_join w [cwd w, ''temp_task.md''])]
            else [])
         @ [Console Log ''Script finished successfully''],
         Inr ()))
   \<and> (file_text w (path_resolve w p) = Some t
       \<and> snd (getProjectDirectories w) = I \<and> I \<noteq> []
       \<and> snd (findProjectName w t I) = Inr d
       \<and> snd (readTenexConfig w d) = Inr cfg
       \<and> truthy (property cfg ''nsec'') \<and> truthy (property cfg ''eventId'')
       \<and> s = snd (readFileIfExists w
                 (path_join w [TENEX_PROJECTS_DIR w, d, ''context'', ''SPEC.md'']))
       \<and> a = snd (readFileIfExists w
                 (path_join w [TENEX_PROJECTS_DIR w, d, ''context'', ''ARCHITECTURE.md'']))
       \<and> G = snd (createDetailedTask w t s a)
       \<and> nak w (the (property cfg ''nsec'')) (the (property cfg ''eventId'')) (taskTitle G) G
            (split CHR '' '' (RELAYS w)) \<noteq> 0
      \<longrightarrow> snd (processTenexTask w p) = Returned
          \<and> (\<exists>before. fst (processTenexTask w p) =
                before @ fst (publishAndCleanUp w (the (property cfg ''nsec''))
                               (the (property cfg ''eventId'')) G)))"
proof (intro conjI impI)
  assume "nak w nsec eventId title T (split CHR '' '' (RELAYS w)) \<noteq> 0"
  then show "snd (publishNostrEvent w nsec eventId title T) = False"
    by (simp add: publishNostrEvent_def Let_def)
next
  assume "nak w nsec eventId (taskTitle T) T (split CHR '' '' (RELAYS w)) \<noteq> 0"
  then show "publishAndCleanUp w nsec eventId T =
        ([WriteFile (path_join w [cwd w, ''temp_task.md'']) T,
          Console Log (''Wrote task content to temporary file: '' @
                       path_join w [cwd w, ''temp_task.md'']),
          Console Log ''Publishing Nostr event...'',
          Publication nsec eventId (taskTitle T) T (split CHR '' '' (RELAYS w)),
          Console Err (''Error publishing Nostr event, exit code: '' @
                       show_int (nak w nsec eventId (taskTitle T) T (split CHR '' '' (RELAYS w)))),
          Console Err ''Failed to publish task as Nostr event'',
          Unlink (path_join w [cwd w, ''temp_task.md''])]
         @ (if unlink_fails w (path_join w [cwd w, ''temp_task.md''])
            then [Console Warn (''Warning: Could not delete temporary file: '' @
                                path_join w [cwd w, ''temp_task.md''])]
            else [])
         @ [Console Log ''Script finished successfully''],
         Inr ())"
    by (simp add: publishAndCleanUp_def publishNostrEvent_def Let_def)
next
  assume h: "file_text w (path_resolve w p) = Some t
       \<and> snd (getProjectDirectories w) = I \<and> I \<noteq> []
       \<and> snd (findProjectName w t I) = Inr d
       \<and> snd (readTenexConfig w d) = Inr cfg
       \<and> truthy (property cfg ''nsec'') \<and> truthy (property cfg ''eventId'')
       \<and> s = snd (readFileIfExists w
                 (path_join w [TENEX_PROJECTS_DIR w, d, ''context'', ''SPEC.md'']))
       \<and> a = snd (readFileIfExists w
                 (path_join w [TENEX_PROJECTS_DIR w, d, ''context'', ''ARCHITECTURE.md'']))
       \<and> G = snd (createDetailedTask w t s a)
       \<and> nak w (the (property cfg ''nsec'')) (the (property cfg ''eventId'')) (taskTitle G) G
            (split CHR '' '' (RELAYS w)) \<noteq> 0"
  then show "snd (processTenexTask w p) = Returned"
    using processTenexTask_publishes(1)
      [where w = w and p = p and t = t and I = I and d = d and cfg = cfg and s = s and a = a]
    by simp
next
  assume h: "file_text w (path_resolve w p) = Some t
       \<and> snd (getProjectDirectories w) = I \<and> I \<noteq> []
       \<and> snd (findProjectName w t I) = Inr d
       \<and> snd (readTenexConfig w d) = Inr cfg
       \<and> truthy (property cfg ''nsec'') \<and> truthy (property cfg ''eventId'')
       \<and> s = snd (readFileIfExists w
                 (path_join w [TENEX_PROJECTS_DIR w, d, ''context'', ''SPEC.md'']))
       \<and> a = snd (readFileIfExists w
                 (path_join w [TENEX_PROJECTS_DIR w, d, ''context'', ''ARCHITECTURE.md'']))
       \<and> G = snd (createDetailedTask w t s a)
       \<and> nak w (the (property cfg ''nsec'')) (the (property cfg ''eventId'')) (taskTitle G) G
            (split CHR '' '' (RELAYS w)) \<noteq> 0"
  then have "\<exists>before. fst (processTenexTask w p) =
           before @ fst (publishAndCleanUp w (the (property cfg ''nsec''))
                          (the (property cfg ''eventId'')) (snd (createDetailedTask w t s a)))"
    using processTenexTask_publishes(4)
      [where w = w and p = p and t = t and I = I and d = d and cfg = cfg and s = s and a = a]
    by simp
  with h show "\<exists>before. fst (processTenexTask w p) =
                before @ fst (publishAndCleanUp w (the (property cfg ''nsec''))
                               (the (property cfg ''eventId'')) G)"
    by simp
qed

theorem failed_publication_still_cleans_up_witness:
  "snd (publishNostrEvent (withConfig exampleConfig (withExitCode 1 exampleWorld))
         (JStr ''nsec1example'') (JStr ''31933:example:shipyard'') ''Add dark mode''
         ''Add dark mode\<newline>Detailed body text...'') = False
   \<and> publishAndCleanUp (withConfig exampleConfig (withExitCode 1 exampleWorld))
         (JStr ''nsec1example'') (JStr ''31933:example:shipyard'')
         ''Add dark mode\<newline>Detailed body text...'' =
       ([WriteFile ''/work/temp_task.md'' ''Add dark mode\<newline>Detailed body text...'',
         Console Log ''Wrote task content to temporary file: /work/temp_task.md'',
         Console Log ''Publishing Nostr event...'',
         Publication (JStr ''nsec1example'') (JStr ''31933:example:shipyard'') ''Add dark mode''
           ''Add dark mode\<newline>Detailed body text...''
           [''wss://relay.primal.net'', ''wss://relay.damus.io''],
         Console Err ''Error publishing Nostr event, exit code: 1'',
         Console Err ''Failed to publish task as Nostr event'',
         Unlink ''/work/temp_task.md'',
         Console Log ''Script finished successfully''],
        Inr ())
   \<and> snd (processTenexTask (withConfig exampleConfig (withExitCode 1 exampleWorld))
         ''transcript.txt'') = Returned"
proof -
  note reach = exampleWorld_reaches_config [OF refl, of exampleConfig 1]
  note docs = exampleWorld_documents [OF refl, of exampleConfig 1]
  show ?thesis
    using failed_publication_still_cleans_up
      [where w = "withConfig exampleConfig (withExitCode 1 exampleWorld)"
         and nsec = "JStr ''nsec1example''" and eventId = "JStr ''31933:example:shipyard''"
         and title = "''Add dark mode''" and T = "''Add dark mode\<newline>Detailed body text...''"
         and p = "''transcript.txt''" and t = "''Shipyard should support dark mode''"
         and I = "[''Shipyard-rux5kf'', ''Backend-ab12'']" and d = "''Shipyard-rux5kf''"
         and cfg = exampleConfig and s = "[]" and a = "[]"
         and G = "''Add dark mode\<newline>Detailed body text...''"]
    unfolding reach docs
    by (simp add: world_defs exampleConfig_def taskTitle_def show_int_def show_nat.simps)
qed

end
